theory Spec2Isabelle
  imports Main "HOL-Library.AList"
begin

section \<open>Python values, dictionaries and strings\<close>

text \<open>
  The dispatch core of \<^verbatim>\<open>wsgiservice/application.py\<close> (class \<^verbatim>\<open>Application\<close>, Python 2)
  is embedded function by function. Python names that start with an underscore lose it
  (\<^verbatim>\<open>_call_resource\<close> is \<open>call_resource\<close>). A header dictionary is an association
  list with Python's \<^verbatim>\<open>d[k] = v\<close> as \<open>AList.update\<close>; a header value is a string or
  Python's \<^verbatim>\<open>None\<close>.
\<close>

type_synonym hval = "string option"
type_synonym headers = "(string \<times> hval) list"
type_synonym path_params = "string \<rightharpoonup> string"

text \<open>
  What the code reads of a \<^verbatim>\<open>webob.Request\<close>. \<open>if_match\<close> and \<open>if_none_match\<close>
  are the objects the code only ever asks \<^verbatim>\<open>tag in ...\<close>: each is the set of tags it
  contains (webob gives a missing \<^verbatim>\<open>If-Match\<close> the object that contains every tag, and
  a missing \<^verbatim>\<open>If-None-Match\<close> the one that contains none). The two dates are
  \<^verbatim>\<open>datetime\<close> objects or \<^verbatim>\<open>None\<close>; a \<^verbatim>\<open>datetime\<close> is its position on the time line.
\<close>

record request =
  request_method :: string
  GET :: "string \<rightharpoonup> string"
  POST :: "string \<rightharpoonup> string"
  if_match :: "string set"
  if_none_match :: "string set"
  if_modified_since :: "int option"
  if_unmodified_since :: "int option"

datatype pyval =
    PNone
  | PStr string
  | PInt int
  | PDate int
  | PRequest request
  | PDict "(string \<times> pyval) list"
  | PMiniResponse pyval "headers option"

datatype error = ValidationException string | TypeError | AttributeError | ValueError

text \<open>Python's truth test (\<^verbatim>\<open>if x\<close>, \<^verbatim>\<open>not x\<close>) on these values.\<close>

fun truthy :: "pyval \<Rightarrow> bool" where
  "truthy PNone = False"
| "truthy (PStr s) = (s \<noteq> [])"
| "truthy (PInt i) = (i \<noteq> 0)"
| "truthy (PDate t) = True"
| "truthy (PRequest r) = True"
| "truthy (PDict d) = (d \<noteq> [])"
| "truthy (PMiniResponse b h) = True"

text \<open>\<^verbatim>\<open>x is None\<close>\<close>

fun is_None :: "pyval \<Rightarrow> bool" where
  "is_None PNone = True"
| "is_None v = False"

definition truthy_hval :: "hval \<Rightarrow> bool" where
  "truthy_hval v = (case v of None \<Rightarrow> False | Some s \<Rightarrow> s \<noteq> [])"

text \<open>\<^verbatim>\<open>len(x)\<close>: defined on strings and dictionaries, a \<^verbatim>\<open>TypeError\<close> otherwise.\<close>

fun py_len :: "pyval \<Rightarrow> error + nat" where
  "py_len (PStr s) = Inr (length s)"
| "py_len (PDict d) = Inr (length d)"
| "py_len v = Inl TypeError"

definition dq :: char where
  "dq = CHR 0x22"

text \<open>\<^verbatim>\<open>s.replace('"', '')\<close>\<close>

definition strip_quotes :: "string \<Rightarrow> string" where
  "strip_quotes s = filter (\<lambda>c. c \<noteq> dq) s"

text \<open>\<^verbatim>\<open>s.upper()\<close> on ASCII.\<close>

definition upper_char :: "char \<Rightarrow> char" where
  "upper_char c =
     (case map_of (zip ''abcdefghijklmnopqrstuvwxyz'' ''ABCDEFGHIJKLMNOPQRSTUVWXYZ'') c of
        Some u \<Rightarrow> u
      | None \<Rightarrow> c)"

definition upper :: "string \<Rightarrow> string" where
  "upper s = map upper_char s"

text \<open>\<^verbatim>\<open>sep.join(xs)\<close>\<close>

fun join :: "string \<Rightarrow> string list \<Rightarrow> string" where
  "join sep [] = []"
| "join sep [x] = x"
| "join sep (x # y # ys) = x @ sep @ join sep (y # ys)"

section \<open>Resources\<close>

text \<open>
  A rule set is the dictionary stored under a parameter's name in \<^verbatim>\<open>_validations\<close>; the
  code reads its key \<^verbatim>\<open>'re'\<close>. A bound method is its argument names as
  \<^verbatim>\<open>inspect.getargspec\<close> lists them (the receiver first), its own \<^verbatim>\<open>_validations\<close> if it has
  the attribute, and what it computes from its arguments. An instance is its attributes in
  the order of \<^verbatim>\<open>dir(instance)\<close>, and the \<^verbatim>\<open>_validations\<close> of its class if there is one.
\<close>

type_synonym rules = "string \<rightharpoonup> hval"

record pymethod =
  argspec :: "string list"
  validations :: "(string \<rightharpoonup> rules) option"
  impl :: "pyval list \<Rightarrow> pyval"

datatype attr = Callable pymethod | Data pyval

record resource =
  attrs :: "(string \<times> attr) list"
  class_validations :: "(string \<rightharpoonup> rules) option"

definition hasattr :: "resource \<Rightarrow> string \<Rightarrow> bool" where
  "hasattr inst name = (map_of (attrs inst) name \<noteq> None)"

definition getattr :: "resource \<Rightarrow> string \<Rightarrow> attr option" where
  "getattr inst name = map_of (attrs inst) name"

fun callable :: "attr option \<Rightarrow> bool" where
  "callable (Some (Callable m)) = True"
| "callable a = False"

definition dir :: "resource \<Rightarrow> string list" where
  "dir inst = map fst (attrs inst)"

section \<open>The environment, the store and the library\<close>

text \<open>
  The WSGI environment: the keys the code reads, the request body behind
  \<^verbatim>\<open>environ['wsgi.input']\<close>, and the request \<^verbatim>\<open>webob.Request(environ)\<close> builds from it.
\<close>

record environ =
  PATH_INFO :: string
  HTTP_CONTENT_MD5 :: "string option"
  wsgi_input :: string
  webob_Request :: request

text \<open>
  Header dictionaries are objects: the store maps an address to the dictionary that lives
  there. The four default arguments \<^verbatim>\<open>headers={}\<close> of the class are created once, when the
  class is defined, at the addresses below; every dictionary display allocates the next
  free address. \<open>invoked\<close> records each call \<^verbatim>\<open>method(*params)\<close> that
  \<^verbatim>\<open>_call_dynamic_method\<close> makes, with its arguments.
\<close>

type_synonym addr = nat

record state =
  store :: "addr \<Rightarrow> headers"
  next_addr :: addr
  invoked :: "(string \<times> pyval list) list"

definition default_headers_400 :: addr where "default_headers_400 = 0"
definition default_headers_404 :: addr where "default_headers_404 = 1"
definition default_headers_405 :: addr where "default_headers_405 = 2"
definition default_headers_501 :: addr where "default_headers_501 = 3"

definition initial_state :: state where
  "initial_state = \<lparr>store = (\<lambda>a. []), next_addr = 4, invoked = []\<rparr>"

definition new_dict :: "headers \<Rightarrow> state \<Rightarrow> addr \<times> state" where
  "new_dict d st =
     (next_addr st, st\<lparr>store := (store st)(next_addr st := d), next_addr := Suc (next_addr st)\<rparr>)"

definition setitem :: "addr \<Rightarrow> string \<Rightarrow> hval \<Rightarrow> state \<Rightarrow> state" where
  "setitem a k v st = st\<lparr>store := (store st)(a := AList.update k v (store st a))\<rparr>"

text \<open>
  The library functions the code calls and this repository does not define:
  \<^verbatim>\<open>hashlib.md5(s).hexdigest()\<close>, \<^verbatim>\<open>webob._serialize_date\<close> (which gives a string or \<^verbatim>\<open>None\<close>,
  or raises) and \<^verbatim>\<open>re.search\<close> (as the truth value of its result). The router \<^verbatim>\<open>self._urlmap\<close> returns \<^verbatim>\<open>None\<close> or the path
  parameters and a resource class; \<^verbatim>\<open>res()\<close> makes the instance, so the model's router
  hands out the instance.
\<close>

record externals =
  md5_hexdigest :: "string \<Rightarrow> string"
  serialize_date :: "pyval \<Rightarrow> error + hval"
  re_search :: "string \<Rightarrow> string \<Rightarrow> bool"

record application =
  urlmap :: "string \<Rightarrow> (path_params \<times> resource) option"

text \<open>
  A \<^verbatim>\<open>Response\<close> is the arguments its constructor is given: the body, the status (absent
  when the caller passes none), the header dictionary by address, the method and the
  extension. The instance and the environment are handed on unchanged and not kept here.
\<close>

record response =
  resp_body :: pyval
  resp_status :: "nat option"
  resp_headers :: addr
  resp_method :: "string option"
  resp_extension :: "string option"

section \<open>Method resolution\<close>

text \<open>
  \<^verbatim>\<open>_resolve_method\<close>: the verb itself when the instance has a callable attribute of that
  name, else for \<^verbatim>\<open>HEAD\<close> whatever \<^verbatim>\<open>GET\<close> resolves to, else \<^verbatim>\<open>None\<close>.
\<close>

function resolve_method :: "resource \<Rightarrow> string \<Rightarrow> string option" where
  "resolve_method inst verb =
     (if hasattr inst verb \<and> callable (getattr inst verb) then Some verb
      else if verb = ''HEAD'' then resolve_method inst ''GET''
      else None)"
  by pat_completeness auto
termination
  by (relation "measure (\<lambda>(inst, verb). if verb = ''HEAD'' then 1 else 0)") auto

declare resolve_method.simps [simp del]

text \<open>\<^verbatim>\<open>_get_allowed_methods\<close>\<close>

definition get_allowed_methods :: "resource \<Rightarrow> string" where
  "get_allowed_methods inst =
     join '', '' (filter (\<lambda>name. upper name = name \<and> callable (getattr inst name)) (dir inst))"

section \<open>Parameter binding and validation\<close>

text \<open>
  \<^verbatim>\<open>_validate_param\<close>. The rule set is the method's own when the method has
  \<^verbatim>\<open>_validations\<close> and the parameter is in it, else the class's under the same test, else
  \<^verbatim>\<open>None\<close>. The two messages are the results of \<^verbatim>\<open>str.format\<close>.
\<close>

definition validate_param ::
  "externals \<Rightarrow> pymethod \<Rightarrow> resource \<Rightarrow> string \<Rightarrow> pyval \<Rightarrow> error + unit" where
  "validate_param ext m inst param v =
     (let rules =
        (case (case validations m of None \<Rightarrow> None | Some vs \<Rightarrow> vs param) of
           Some r \<Rightarrow> Some r
         | None \<Rightarrow> (case class_validations inst of None \<Rightarrow> None | Some vs \<Rightarrow> vs param))
      in case rules of
           None \<Rightarrow> Inr ()
         | Some r \<Rightarrow>
             if is_None v then
               Inl (ValidationException (''Value for '' @ param @ '' must not be empty.''))
             else
               (case py_len v of
                  Inl e \<Rightarrow> Inl e
                | Inr n \<Rightarrow>
                    if n = 0 then
                      Inl (ValidationException (''Value for '' @ param @ '' must not be empty.''))
                    else
                      (case r ''re'' of
                         None \<Rightarrow> Inr ()
                       | Some re \<Rightarrow>
                           if truthy_hval re then
                             (case v of
                                PStr s \<Rightarrow>
                                  if \<not> re_search ext (''^'' @ the re @ ''$'') s then
                                    Inl (ValidationException
                                      (param @ '' value '' @ s @ '' does not validate.''))
                                  else Inr ()
                              | _ \<Rightarrow> Inl TypeError)
                           else Inr ())))"

text \<open>
  The loop of \<^verbatim>\<open>_call_dynamic_method\<close> over the declared parameters: each value is
  resolved, validated and appended, and the first exception ends the loop.
\<close>

fun bind_params ::
  "externals \<Rightarrow> pymethod \<Rightarrow> resource \<Rightarrow> string list \<Rightarrow> path_params \<Rightarrow> request
     \<Rightarrow> error + pyval list" where
  "bind_params ext m inst [] pp req = Inr []"
| "bind_params ext m inst (param # rest) pp req =
     (let v =
        (if param = ''request'' then PRequest req
         else if pp param \<noteq> None then PStr (the (pp param))
         else if GET req param \<noteq> None then PStr (the (GET req param))
         else if POST req param \<noteq> None then PStr (the (POST req param))
         else PNone)
      in case validate_param ext m inst param v of
           Inl e \<Rightarrow> Inl e
         | Inr u \<Rightarrow>
             (case bind_params ext m inst rest pp req of
                Inl e \<Rightarrow> Inl e
              | Inr params \<Rightarrow> Inr (v # params)))"

text \<open>
  \<^verbatim>\<open>_call_dynamic_method\<close>. \<^verbatim>\<open>getattr\<close> of a missing name is an \<^verbatim>\<open>AttributeError\<close>, and
  \<^verbatim>\<open>inspect.getargspec\<close> of an attribute that is not a function a \<^verbatim>\<open>TypeError\<close>. The
  receiver is popped off the argument names when there are any.
\<close>

definition call_dynamic_method ::
  "externals \<Rightarrow> resource \<Rightarrow> string \<Rightarrow> path_params \<Rightarrow> request \<Rightarrow> state
     \<Rightarrow> error + (pyval \<times> state)" where
  "call_dynamic_method ext inst name pp req st =
     (case getattr inst name of
        None \<Rightarrow> Inl AttributeError
      | Some (Data d) \<Rightarrow> Inl TypeError
      | Some (Callable m) \<Rightarrow>
          (let method_params = (if argspec m \<noteq> [] then tl (argspec m) else argspec m)
           in case bind_params ext m inst method_params pp req of
                Inl e \<Rightarrow> Inl e
              | Inr params \<Rightarrow>
                  Inr (impl m params, st\<lparr>invoked := invoked st @ [(name, params)]\<rparr>)))"

section \<open>ETag and Last-Modified\<close>

text \<open>
  \<^verbatim>\<open>_get_etag\<close>: \<^verbatim>\<open>None\<close> without the attribute; a true result is quoted after
  \<^verbatim>\<open>replace('"', '')\<close>, which only a string has; a false one falls off the end of the
  function, which returns \<^verbatim>\<open>None\<close>.
\<close>

definition get_etag ::
  "externals \<Rightarrow> resource \<Rightarrow> path_params \<Rightarrow> request \<Rightarrow> state \<Rightarrow> error + (hval \<times> state)" where
  "get_etag ext inst pp req st =
     (if \<not> hasattr inst ''get_etag'' then Inr (None, st)
      else
        (case call_dynamic_method ext inst ''get_etag'' pp req st of
           Inl e \<Rightarrow> Inl e
         | Inr (retval, st') \<Rightarrow>
             if truthy retval then
               (case retval of
                  PStr s \<Rightarrow> Inr (Some ([dq] @ strip_quotes s @ [dq]), st')
                | _ \<Rightarrow> Inl AttributeError)
             else Inr (None, st')))"

definition get_last_modified ::
  "externals \<Rightarrow> resource \<Rightarrow> path_params \<Rightarrow> request \<Rightarrow> state \<Rightarrow> error + (pyval \<times> state)" where
  "get_last_modified ext inst pp req st =
     (if \<not> hasattr inst ''get_last_modified'' then Inr (PNone, st)
      else call_dynamic_method ext inst ''get_last_modified'' pp req st)"

section \<open>Preconditions\<close>

text \<open>\<^verbatim>\<open>_handle_condition_etag\<close>\<close>

definition handle_condition_etag :: "request \<Rightarrow> hval \<Rightarrow> nat" where
  "handle_condition_etag req etag =
     (if \<not> truthy_hval etag then 0
      else
        (let etag_match = strip_quotes (the etag)
         in if \<not> etag_match \<in> if_match req then 412
            else if etag_match \<in> if_none_match req then
              (if request_method req \<in> set [''GET'', ''HEAD''] then 304 else 412)
            else 0))"

text \<open>
  \<^verbatim>\<open>_handle_condition_last_modified\<close>. The bare \<^verbatim>\<open>return\<close> gives \<^verbatim>\<open>None\<close>. Python compares
  a \<^verbatim>\<open>datetime\<close> with a \<^verbatim>\<open>datetime\<close> only: any other true value raises \<^verbatim>\<open>TypeError\<close> at
  the first comparison that is reached.
\<close>

definition handle_condition_last_modified :: "request \<Rightarrow> pyval \<Rightarrow> error + nat option" where
  "handle_condition_last_modified req last_modified =
     (if \<not> truthy last_modified then Inr None
      else
        (case last_modified of
           PDate t \<Rightarrow>
             if if_modified_since req \<noteq> None \<and> t \<le> the (if_modified_since req) then
               Inr (Some 304)
             else if if_unmodified_since req \<noteq> None \<and> t > the (if_unmodified_since req) then
               Inr (Some 412)
             else Inr (Some 0)
         | _ \<Rightarrow>
             if if_modified_since req \<noteq> None then Inl TypeError
             else if if_unmodified_since req \<noteq> None then Inl TypeError
             else Inr (Some 0)))"

section \<open>Status responses\<close>

text \<open>
  The helpers \<^verbatim>\<open>_get_response_<status>\<close>. A \<open>headers\<close> argument of \<open>None\<close> is a call
  that passes none, so that the parameter is bound to the default dictionary of the
  helper. The 405 and 501 helpers store the \<^verbatim>\<open>Allow\<close> entry into whatever dictionary the
  parameter is bound to. Logging is left out.
\<close>

definition get_response_304 :: "addr \<Rightarrow> response" where
  "get_response_304 hdrs =
     \<lparr>resp_body = PNone, resp_status = Some 304, resp_headers = hdrs,
      resp_method = None, resp_extension = None\<rparr>"

definition get_response_400 :: "addr option \<Rightarrow> string option \<Rightarrow> response" where
  "get_response_400 hdrs body =
     \<lparr>resp_body =
        PDict [(''error'', PStr (case body of None \<Rightarrow> ''Invalid request'' | Some b \<Rightarrow> b))],
      resp_status = Some 400,
      resp_headers = (case hdrs of None \<Rightarrow> default_headers_400 | Some a \<Rightarrow> a),
      resp_method = None, resp_extension = None\<rparr>"

definition get_response_404 :: "addr option \<Rightarrow> response" where
  "get_response_404 hdrs =
     \<lparr>resp_body = PDict [(''error'', PStr ''not found'')], resp_status = Some 404,
      resp_headers = (case hdrs of None \<Rightarrow> default_headers_404 | Some a \<Rightarrow> a),
      resp_method = None, resp_extension = None\<rparr>"

definition get_response_405 :: "resource \<Rightarrow> addr option \<Rightarrow> state \<Rightarrow> response \<times> state" where
  "get_response_405 inst hdrs st =
     (let a = (case hdrs of None \<Rightarrow> default_headers_405 | Some a \<Rightarrow> a);
          st' = setitem a ''Allow'' (Some (get_allowed_methods inst)) st
      in (\<lparr>resp_body = PDict [(''error'', PStr ''Invalid method on resource'')],
           resp_status = Some 405, resp_headers = a,
           resp_method = None, resp_extension = None\<rparr>, st'))"

definition get_response_412 :: "addr \<Rightarrow> response" where
  "get_response_412 hdrs =
     \<lparr>resp_body = PDict [(''error'', PStr ''Precondition failed'')], resp_status = Some 412,
      resp_headers = hdrs, resp_method = None, resp_extension = None\<rparr>"

definition get_response_501 :: "resource \<Rightarrow> addr option \<Rightarrow> state \<Rightarrow> response \<times> state" where
  "get_response_501 inst hdrs st =
     (let a = (case hdrs of None \<Rightarrow> default_headers_501 | Some a \<Rightarrow> a);
          st' = setitem a ''Allow'' (Some (get_allowed_methods inst)) st
      in (\<lparr>resp_body = PDict [(''error'', PStr ''Unknown method'')],
           resp_status = Some 501, resp_headers = a,
           resp_method = None, resp_extension = None\<rparr>, st'))"

text \<open>
  \<^verbatim>\<open>getattr(self, '_get_response_' + str(status))(instance, environ, headers)\<close>: the helper
  of that status when the class has one, an \<^verbatim>\<open>AttributeError\<close> otherwise.
\<close>

definition get_response_by_status ::
  "nat \<Rightarrow> resource \<Rightarrow> addr \<Rightarrow> state \<Rightarrow> error + (response \<times> state)" where
  "get_response_by_status status inst hdrs st =
     (if status = 304 then Inr (get_response_304 hdrs, st)
      else if status = 400 then Inr (get_response_400 (Some hdrs) None, st)
      else if status = 404 then Inr (get_response_404 (Some hdrs), st)
      else if status = 405 then Inr (get_response_405 inst (Some hdrs) st)
      else if status = 412 then Inr (get_response_412 hdrs, st)
      else if status = 501 then Inr (get_response_501 inst (Some hdrs) st)
      else Inl AttributeError)"

section \<open>The conditional evaluator\<close>

text \<open>Python 2 orders \<^verbatim>\<open>None\<close> below every number: \<^verbatim>\<open>None > 0\<close> is false.\<close>

definition greater_zero :: "nat option \<Rightarrow> bool" where
  "greater_zero status = (case status of None \<Rightarrow> False | Some n \<Rightarrow> n > 0)"

text \<open>
  \<^verbatim>\<open>_handle_conditions\<close> returns the default headers and a response or \<^verbatim>\<open>None\<close>. On a
  Content-MD5 mismatch the tuple's first component, a new empty dictionary, is built
  before the 400 response.
\<close>

definition handle_conditions ::
  "externals \<Rightarrow> resource \<Rightarrow> path_params \<Rightarrow> environ \<Rightarrow> request \<Rightarrow> state
     \<Rightarrow> error + ((addr \<times> response option) \<times> state)" where
  "handle_conditions ext inst pp env req st =
     (if HTTP_CONTENT_MD5 env \<noteq> None
         \<and> md5_hexdigest ext (wsgi_input env) \<noteq> the (HTTP_CONTENT_MD5 env) then
        (let (empty, st1) = new_dict [] st
         in Inr ((empty,
                  Some (get_response_400 None
                    (Some ''The Content-MD5 request header does not match the body.''))), st1))
      else
        (case get_etag ext inst pp req st of
           Inl e \<Rightarrow> Inl e
         | Inr (etag, st1) \<Rightarrow>
             (case get_last_modified ext inst pp req st1 of
                Inl e \<Rightarrow> Inl e
              | Inr (last_modified, st2) \<Rightarrow>
                  (case serialize_date ext last_modified of
                     Inl e \<Rightarrow> Inl e
                   | Inr date \<Rightarrow>
                       (let (hdrs, st3) =
                              new_dict [(''ETag'', etag), (''Last-Modified'', date)] st2;
                            status = handle_condition_etag req etag
                        in case (if status = 0
                                 then handle_condition_last_modified req last_modified
                                 else Inr (Some status)) of
                             Inl e \<Rightarrow> Inl e
                           | Inr status' \<Rightarrow>
                               if greater_zero status' then
                                 (case get_response_by_status (the status') inst hdrs st3 of
                                    Inl e \<Rightarrow> Inl e
                                  | Inr (resp, st4) \<Rightarrow> Inr ((hdrs, Some resp), st4))
                               else Inr ((hdrs, None), st3))))))"

section \<open>The dispatcher\<close>

text \<open>
  The loop \<^verbatim>\<open>for key, value in default_headers.iteritems()\<close> of \<^verbatim>\<open>_call_resource\<close>, over
  the items of the default headers, on the contents of the response's dictionary.
\<close>

fun merge_defaults :: "(string \<times> hval) list \<Rightarrow> headers \<Rightarrow> headers" where
  "merge_defaults [] hdrs = hdrs"
| "merge_defaults ((key, v) # rest) hdrs =
     merge_defaults rest
       (if truthy_hval v \<and> map_of hdrs key = None then AList.update key v hdrs else hdrs)"

text \<open>
  \<^verbatim>\<open>_call_resource\<close>. A handler that returns a \<^verbatim>\<open>MiniResponse\<close> hands over its own header
  dictionary, an object no one else holds: it enters the store at a new address. Headers
  that are \<^verbatim>\<open>None\<close> or empty are replaced by a new empty dictionary.
\<close>

definition call_resource ::
  "externals \<Rightarrow> resource \<Rightarrow> path_params \<Rightarrow> environ \<Rightarrow> state \<Rightarrow> error + (response \<times> state)" where
  "call_resource ext inst pp env st =
     (let req = webob_Request env
      in case resolve_method inst (request_method req) of
           None \<Rightarrow>
             if request_method req \<in> set [''OPTIONS'', ''GET'', ''HEAD'', ''POST'', ''PUT'',
                                           ''DELETE'', ''TRACE'', ''CONNECT''] then
               Inr (get_response_405 inst None st)
             else Inr (get_response_501 inst None st)
         | Some m \<Rightarrow>
             (case handle_conditions ext inst pp env req st of
                Inl e \<Rightarrow> Inl e
              | Inr ((default_headers, Some resp), st1) \<Rightarrow> Inr (resp, st1)
              | Inr ((default_headers, None), st1) \<Rightarrow>
                  (case call_dynamic_method ext inst m pp req st1 of
                     Inl e \<Rightarrow> Inl e
                   | Inr (result, st2) \<Rightarrow>
                       (let (body, handler_headers) =
                              (case result of
                                 PMiniResponse b h \<Rightarrow> (b, h)
                               | _ \<Rightarrow> (result, None));
                            (hdrs, st3) =
                              (if handler_headers = None \<or> the handler_headers = [] then
                                 new_dict [] st2
                               else new_dict (the handler_headers) st2);
                            st4 = st3\<lparr>store := (store st3)
                                    (hdrs := merge_defaults (store st3 default_headers)
                                               (store st3 hdrs))\<rparr>
                        in Inr (\<lparr>resp_body = body, resp_status = None, resp_headers = hdrs,
                                  resp_method = Some m,
                                  resp_extension = pp ''_extension''\<rparr>, st4)))))"

text \<open>\<^verbatim>\<open>_handle_request\<close>: a path the router does not know is a 404.\<close>

definition handle_request ::
  "externals \<Rightarrow> application \<Rightarrow> environ \<Rightarrow> state \<Rightarrow> error + (response \<times> state)" where
  "handle_request ext app env st =
     (case urlmap app (PATH_INFO env) of
        None \<Rightarrow> Inr (get_response_404 None, st)
      | Some (pp, inst) \<Rightarrow> call_resource ext inst pp env st)"

section \<open>Readings of the specification\<close>

text \<open>
  The binding precedence in the specification's order: the request itself for the name
  \<^verbatim>\<open>request\<close>, else the path parameter, else the query parameter, else the form
  parameter, else \<^verbatim>\<open>None\<close>.
\<close>

definition bound_value :: "path_params \<Rightarrow> request \<Rightarrow> string \<Rightarrow> pyval" where
  "bound_value pp req name =
     (if name = ''request'' then PRequest req
      else case pp name of
        Some v \<Rightarrow> PStr v
      | None \<Rightarrow>
          (case GET req name of
             Some v \<Rightarrow> PStr v
           | None \<Rightarrow> (case POST req name of Some v \<Rightarrow> PStr v | None \<Rightarrow> PNone)))"

text \<open>The declared parameters of a method: its argument names without the receiver.\<close>

definition declared_params :: "pymethod \<Rightarrow> string list" where
  "declared_params m = tl (argspec m)"

text \<open>
  Validation is applied to each resolved value in turn, before the invocation: the first
  result that is an exception is the one raised.
\<close>

fun first_error :: "(error + unit) list \<Rightarrow> error option" where
  "first_error [] = None"
| "first_error (Inl e # rs) = Some e"
| "first_error (Inr u # rs) = first_error rs"

text \<open>
  The verb-shaped callable attributes of an instance: the names without a lower-case
  letter whose attribute is callable, in the order of \<^verbatim>\<open>dir\<close>.
\<close>

definition verb_shaped :: "string \<Rightarrow> bool" where
  "verb_shaped name = list_all (\<lambda>c. c \<notin> set ''abcdefghijklmnopqrstuvwxyz'') name"

definition exposed_verb_handlers :: "resource \<Rightarrow> string list" where
  "exposed_verb_handlers inst =
     filter (\<lambda>name. verb_shaped name \<and> callable (getattr inst name)) (dir inst)"

text \<open>
  The Last-Modified decision as the specification words it, on the computed timestamp
  (\<open>None\<close> when it is absent); 0 stands for proceeding.
\<close>

definition last_modified_decision :: "request \<Rightarrow> int option \<Rightarrow> nat" where
  "last_modified_decision req ts =
     (case ts of
        None \<Rightarrow> 0
      | Some t \<Rightarrow>
          (case if_modified_since req of
             Some d \<Rightarrow>
               if t \<le> d then 304
               else (case if_unmodified_since req of
                       Some u \<Rightarrow> if t > u then 412 else 0
                     | None \<Rightarrow> 0)
           | None \<Rightarrow>
               (case if_unmodified_since req of
                  Some u \<Rightarrow> if t > u then 412 else 0
                | None \<Rightarrow> 0)))"

text \<open>The timestamp of a computed Last-Modified value.\<close>

fun timestamp :: "pyval \<Rightarrow> int option" where
  "timestamp (PDate t) = Some t"
| "timestamp v = None"

section \<open>A fragment of Python's regular expressions\<close>

text \<open>
  \<^verbatim>\<open>re.search\<close> on the patterns built from literal characters, \<^verbatim>\<open>^\<close>, \<^verbatim>\<open>$\<close> and \<^verbatim>\<open>|\<close> alone.
  Such a pattern is an alternation of branches, \<^verbatim>\<open>|\<close> binding weakest; a branch is a
  sequence of atoms. \<^verbatim>\<open>^\<close> holds at the start of the subject, \<^verbatim>\<open>$\<close> at its end and just
  before a newline that ends it, and a literal consumes itself. A branch matched from a
  position ends at one position, if at all.
\<close>

definition in_fragment :: "string \<Rightarrow> bool" where
  "in_fragment p = list_all (\<lambda>c. c \<notin> set (''.*+?{}[]()'' @ [CHR 0x5C])) p"

fun split_bar :: "string \<Rightarrow> string list" where
  "split_bar [] = [[]]"
| "split_bar (c # cs) =
     (if c = CHR ''|'' then [] # split_bar cs
      else (case split_bar cs of b # bs \<Rightarrow> (c # b) # bs | [] \<Rightarrow> [[c]]))"

fun match_seq :: "string \<Rightarrow> string \<Rightarrow> nat \<Rightarrow> nat option" where
  "match_seq [] s i = Some i"
| "match_seq (c # p) s i =
     (if c = CHR ''^'' then (if i = 0 then match_seq p s i else None)
      else if c = CHR ''$'' then
        (if i = length s \<or> (Suc i = length s \<and> s ! i = CHR 0x0A) then match_seq p s i
         else None)
      else if i < length s \<and> s ! i = c then match_seq p s (Suc i)
      else None)"

definition re_search_fragment :: "string \<Rightarrow> string \<Rightarrow> bool" where
  "re_search_fragment p s =
     list_ex (\<lambda>i. list_ex (\<lambda>b. match_seq b s i \<noteq> None) (split_bar p)) [0..<Suc (length s)]"

text \<open>A match of the pattern that spans the entire subject.\<close>

definition spans_entire_value :: "string \<Rightarrow> string \<Rightarrow> bool" where
  "spans_entire_value p s = list_ex (\<lambda>b. match_seq b s 0 = Some (length s)) (split_bar p)"

section \<open>A document resource\<close>

text \<open>
  The inputs the theorems are run on. The library is Python's on the inputs used and on no
  others: the MD5 digests of the empty body and of \<^verbatim>\<open>hello\<close>, the HTTP dates of \<^verbatim>\<open>None\<close> and
  of the first two days of 1970 (in seconds), and \<^verbatim>\<open>re.search\<close> on the fragment above.
  The resource has three verb handlers, the two optional capabilities and a data
  attribute; its class asks for a non-empty \<^verbatim>\<open>id\<close>, and \<^verbatim>\<open>DELETE\<close> for a \<^verbatim>\<open>confirm\<close> that
  matches \<^verbatim>\<open>yes|no\<close>.
\<close>

definition md5_known :: "string \<Rightarrow> string" where
  "md5_known s =
     (if s = [] then ''d41d8cd98f00b204e9800998ecf8427e''
      else if s = ''hello'' then ''5d41402abc4b2a76b9719d911017c592''
      else [])"

definition http_date_known :: "pyval \<Rightarrow> error + hval" where
  "http_date_known v =
     (case v of
        PNone \<Rightarrow> Inr None
      | PDate t \<Rightarrow>
          (if t = 0 then Inr (Some ''Thu, 01 Jan 1970 00:00:00 GMT'')
           else if t = 86400 then Inr (Some ''Fri, 02 Jan 1970 00:00:00 GMT'')
           else Inl ValueError)
      | _ \<Rightarrow> Inl ValueError)"

definition library :: externals where
  "library =
     \<lparr>md5_hexdigest = md5_known, serialize_date = http_date_known,
      re_search = re_search_fragment\<rparr>"

definition document_DELETE :: pymethod where
  "document_DELETE =
     \<lparr>argspec = [''self'', ''id'', ''confirm''],
      validations = Some [''confirm'' \<mapsto> [''re'' \<mapsto> Some ''yes|no'']],
      impl = (\<lambda>args. PStr ''deleted'')\<rparr>"

definition document_GET :: pymethod where
  "document_GET =
     \<lparr>argspec = [''self'', ''request'', ''id'', ''lang''],
      validations = None,
      impl = (\<lambda>args. PMiniResponse (PDict [(''args'', PInt (int (length args)))])
                (Some [(''ETag'', Some ''custom'')]))\<rparr>"

definition document_PUT :: pymethod where
  "document_PUT =
     \<lparr>argspec = [''self'', ''id''], validations = None, impl = (\<lambda>args. PStr ''stored'')\<rparr>"

definition document_get_etag :: pymethod where
  "document_get_etag =
     \<lparr>argspec = [''self'', ''id''], validations = None,
      impl = (\<lambda>args. PStr (''doc'' @ [dq] @ ''7'' @ [dq]))\<rparr>"

definition document_get_last_modified :: pymethod where
  "document_get_last_modified =
     \<lparr>argspec = [''self''], validations = None, impl = (\<lambda>args. PDate 86400)\<rparr>"

definition document :: resource where
  "document =
     \<lparr>attrs =
        [(''DELETE'', Callable document_DELETE),
         (''GET'', Callable document_GET),
         (''PUT'', Callable document_PUT),
         (''get_etag'', Callable document_get_etag),
         (''get_last_modified'', Callable document_get_last_modified),
         (''title'', Data (PStr ''Documents''))],
      class_validations = Some [''id'' \<mapsto> Map.empty]\<rparr>"

text \<open>A method whose one parameter carries the pattern rule \<open>p\<close>.\<close>

definition validated :: "string \<Rightarrow> string \<Rightarrow> pymethod" where
  "validated param p =
     \<lparr>argspec = [''self'', param], validations = Some [param \<mapsto> [''re'' \<mapsto> Some p]],
      impl = (\<lambda>args. PNone)\<rparr>"

text \<open>A resource with \<^verbatim>\<open>GET\<close> alone, and no ETag or Last-Modified capability.\<close>

definition plain :: resource where
  "plain =
     \<lparr>attrs =
        [(''GET'', Callable \<lparr>argspec = [''self''], validations = None,
             impl = (\<lambda>args. PStr ''plain'')\<rparr>)],
      class_validations = None\<rparr>"

definition a_request :: request where
  "a_request =
     \<lparr>request_method = ''GET'', GET = [''lang'' \<mapsto> ''en'', ''id'' \<mapsto> ''9''],
      POST = Map.empty, if_match = UNIV, if_none_match = {}, if_modified_since = None,
      if_unmodified_since = None\<rparr>"

definition an_environ :: environ where
  "an_environ =
     \<lparr>PATH_INFO = ''/documents/7'', HTTP_CONTENT_MD5 = None, wsgi_input = [],
      webob_Request = a_request\<rparr>"

definition an_application :: application where
  "an_application =
     \<lparr>urlmap = (\<lambda>path. if path = ''/documents/7'' then Some ([''id'' \<mapsto> ''7''], document)
                        else if path = ''/documents'' then Some (Map.empty, document)
                        else None)\<rparr>"

text \<open>The state after the conditional evaluator has served the document at path 7.\<close>

definition after_conditions :: state where
  "after_conditions =
     \<lparr>store = (\<lambda>a. [])(4 := [(''ETag'', Some ([dq] @ ''doc7'' @ [dq])),
                             (''Last-Modified'', Some ''Fri, 02 Jan 1970 00:00:00 GMT'')]),
      next_addr = 5,
      invoked = [(''get_etag'', [PStr ''7'']), (''get_last_modified'', [])]\<rparr>"

section \<open>Facts about the document resource\<close>

lemmas document_defs =
  document_def document_DELETE_def document_GET_def document_PUT_def document_get_etag_def
  document_get_last_modified_def

lemma document_etag:
  "get_etag library document [''id'' \<mapsto> ''7''] req st
     = Inr (Some ([dq] @ ''doc7'' @ [dq]),
            st\<lparr>invoked := invoked st @ [(''get_etag'', [PStr ''7''])]\<rparr>)"
  by (simp add: get_etag_def hasattr_def call_dynamic_method_def getattr_def document_defs
      validate_param_def strip_quotes_def dq_def)

lemma document_last_modified:
  "get_last_modified library document pp req st
     = Inr (PDate 86400, st\<lparr>invoked := invoked st @ [(''get_last_modified'', [])]\<rparr>)"
  by (simp add: get_last_modified_def hasattr_def call_dynamic_method_def getattr_def
      document_defs)

lemma document_resolves:
  "resolve_method document ''GET'' = Some ''GET''"
  "resolve_method document ''DELETE'' = Some ''DELETE''"
  "resolve_method document ''PUT'' = Some ''PUT''"
  "resolve_method document ''POST'' = None"
  "resolve_method document ''PATCH'' = None"
  "resolve_method document ''HEAD'' = Some ''GET''"
  by (simp_all add: resolve_method.simps hasattr_def getattr_def document_def)

lemma document_date:
  "serialize_date library (PDate 86400) = Inr (Some ''Fri, 02 Jan 1970 00:00:00 GMT'')"
  by (simp add: library_def http_date_known_def)

lemma document_headers:
  "new_dict [(''ETag'', Some ([dq] @ ''doc7'' @ [dq])),
             (''Last-Modified'', Some ''Fri, 02 Jan 1970 00:00:00 GMT'')]
     (initial_state\<lparr>invoked := invoked initial_state @ [(''get_etag'', [PStr ''7''])]\<rparr>
        \<lparr>invoked := invoked (initial_state\<lparr>invoked := invoked initial_state
                               @ [(''get_etag'', [PStr ''7''])]\<rparr>)
                     @ [(''get_last_modified'', [])]\<rparr>)
     = (4, after_conditions)"
  by (simp add: new_dict_def initial_state_def after_conditions_def)

section \<open>The ETag header\<close>

lemma get_etag_present:
  assumes "get_etag ext inst pp req st = Inr (Some e, st')"
  shows "e \<noteq> []"
  using assms
  by (auto simp: get_etag_def split: if_splits sum.splits prod.splits pyval.splits)

text \<open>
  C4: when the ETag capability yields a non-empty string \<open>v\<close>, the computed ETag is a
  double quote, \<open>v\<close> without its double quotes, and a double quote; when the instance has
  no such capability, or the capability yields a false value, the ETag is \<^verbatim>\<open>None\<close>.
\<close>

theorem get_etag_quotes_value:
  "(\<not> hasattr inst ''get_etag'' \<longrightarrow> get_etag ext inst pp req st = Inr (None, st)) \<and>
   (hasattr inst ''get_etag'' \<and>
      call_dynamic_method ext inst ''get_etag'' pp req st = Inr (PStr v, st') \<and> v \<noteq> [] \<longrightarrow>
      get_etag ext inst pp req st = Inr (Some ([dq] @ filter (\<lambda>c. c \<noteq> dq) v @ [dq]), st')) \<and>
   (hasattr inst ''get_etag'' \<and>
      call_dynamic_method ext inst ''get_etag'' pp req st = Inr (r, st') \<and> \<not> truthy r \<longrightarrow>
      get_etag ext inst pp req st = Inr (None, st'))"
  by (simp add: get_etag_def strip_quotes_def)

theorem get_etag_quotes_value_witness:
  "hasattr document ''get_etag'' \<and>
   call_dynamic_method library document ''get_etag'' [''id'' \<mapsto> ''7''] a_request initial_state
     = Inr (PStr (''doc'' @ [dq] @ ''7'' @ [dq]),
            initial_state\<lparr>invoked := [(''get_etag'', [PStr ''7''])]\<rparr>) \<and>
   get_etag library document [''id'' \<mapsto> ''7''] a_request initial_state
     = Inr (Some ([dq] @ ''doc7'' @ [dq]),
            initial_state\<lparr>invoked := [(''get_etag'', [PStr ''7''])]\<rparr>) \<and>
   \<not> hasattr plain ''get_etag'' \<and>
   get_etag library plain Map.empty a_request initial_state = Inr (None, initial_state)"
proof -
  have h: "hasattr document ''get_etag''"
    by (simp add: hasattr_def document_defs)
  have c: "call_dynamic_method library document ''get_etag'' [''id'' \<mapsto> ''7''] a_request
             initial_state
           = Inr (PStr (''doc'' @ [dq] @ ''7'' @ [dq]),
                  initial_state\<lparr>invoked := [(''get_etag'', [PStr ''7''])]\<rparr>)"
    by (simp add: call_dynamic_method_def getattr_def document_defs validate_param_def
        initial_state_def)
  have p: "\<not> hasattr plain ''get_etag''"
    by (simp add: hasattr_def plain_def)
  from get_etag_quotes_value [of document library "[''id'' \<mapsto> ''7'']" a_request initial_state
      "''doc'' @ [dq] @ ''7'' @ [dq]" "initial_state\<lparr>invoked := [(''get_etag'', [PStr ''7''])]\<rparr>"]
    get_etag_quotes_value [of plain library Map.empty a_request initial_state]
    h c p
  show ?thesis by (simp add: dq_def)
qed

section \<open>The ETag precondition\<close>

text \<open>
  C1: when the computed ETag is present, its quote-stripped form is compared: a tag that is
  not in the request's If-Match set gives 412; otherwise a tag in the If-None-Match set
  gives 304 for \<^verbatim>\<open>GET\<close> and \<^verbatim>\<open>HEAD\<close> and 412 for any other verb; otherwise the decision is
  0, to proceed.
\<close>

theorem etag_precondition_decision:
  assumes "get_etag ext inst pp req st = Inr (Some e, st')"
  shows "handle_condition_etag req (Some e) =
           (if filter (\<lambda>c. c \<noteq> dq) e \<notin> if_match req then 412
            else if filter (\<lambda>c. c \<noteq> dq) e \<in> if_none_match req then
              (if request_method req = ''GET'' \<or> request_method req = ''HEAD'' then 304
               else 412)
            else 0)"
proof -
  from assms have "e \<noteq> []" by (rule get_etag_present)
  then show ?thesis
    by (simp add: handle_condition_etag_def truthy_hval_def strip_quotes_def Let_def)
qed

theorem etag_precondition_decision_witness:
  "get_etag library document [''id'' \<mapsto> ''7'']
       (a_request\<lparr>if_none_match := {''doc7''}\<rparr>) initial_state
     = Inr (Some ([dq] @ ''doc7'' @ [dq]),
            initial_state\<lparr>invoked := [(''get_etag'', [PStr ''7''])]\<rparr>) \<and>
   handle_condition_etag (a_request\<lparr>if_none_match := {''doc7''}\<rparr>)
       (Some ([dq] @ ''doc7'' @ [dq])) = 304 \<and>
   get_etag library document [''id'' \<mapsto> ''7'']
       (a_request\<lparr>request_method := ''PUT'', if_none_match := {''doc7''}\<rparr>) initial_state
     = Inr (Some ([dq] @ ''doc7'' @ [dq]),
            initial_state\<lparr>invoked := [(''get_etag'', [PStr ''7''])]\<rparr>) \<and>
   handle_condition_etag (a_request\<lparr>request_method := ''PUT'', if_none_match := {''doc7''}\<rparr>)
       (Some ([dq] @ ''doc7'' @ [dq])) = 412 \<and>
   get_etag library document [''id'' \<mapsto> ''7'']
       (a_request\<lparr>if_match := {''doc8''}\<rparr>) initial_state
     = Inr (Some ([dq] @ ''doc7'' @ [dq]),
            initial_state\<lparr>invoked := [(''get_etag'', [PStr ''7''])]\<rparr>) \<and>
   handle_condition_etag (a_request\<lparr>if_match := {''doc8''}\<rparr>)
       (Some ([dq] @ ''doc7'' @ [dq])) = 412 \<and>
   get_etag library document [''id'' \<mapsto> ''7''] a_request initial_state
     = Inr (Some ([dq] @ ''doc7'' @ [dq]),
            initial_state\<lparr>invoked := [(''get_etag'', [PStr ''7''])]\<rparr>) \<and>
   handle_condition_etag a_request (Some ([dq] @ ''doc7'' @ [dq])) = 0"
proof -
  let ?st = "initial_state\<lparr>invoked := [(''get_etag'', [PStr ''7''])]\<rparr>"
  have g: "get_etag library document [''id'' \<mapsto> ''7''] req initial_state
             = Inr (Some ([dq] @ ''doc7'' @ [dq]), ?st)" for req
    by (simp add: document_etag initial_state_def)
  note d = etag_precondition_decision [OF g]
  show ?thesis
    using d [of "a_request\<lparr>if_none_match := {''doc7''}\<rparr>"]
      d [of "a_request\<lparr>request_method := ''PUT'', if_none_match := {''doc7''}\<rparr>"]
      d [of "a_request\<lparr>if_match := {''doc8''}\<rparr>"]
      d [of a_request]
    by (simp add: g a_request_def dq_def)
qed

section \<open>The Last-Modified precondition\<close>

lemma handle_condition_etag_values:
  "handle_condition_etag req etag = 0 \<or> handle_condition_etag req etag = 304
     \<or> handle_condition_etag req etag = 412"
  by (simp add: handle_condition_etag_def Let_def)

lemma handle_condition_last_modified_decision:
  assumes "last_modified = PNone \<or> last_modified = PDate t"
  shows "handle_condition_last_modified req last_modified =
           Inr (if last_modified = PNone then None
                else Some (last_modified_decision req (timestamp last_modified)))"
  using assms
  by (auto simp: handle_condition_last_modified_def last_modified_decision_def
      split: option.splits)

lemma last_modified_decision_values:
  "last_modified_decision req ts = 0 \<or> last_modified_decision req ts = 304
     \<or> last_modified_decision req ts = 412"
  by (simp add: last_modified_decision_def split: option.splits)

lemma handle_conditions_md5_ok:
  assumes md5: "HTTP_CONTENT_MD5 env = None
                  \<or> md5_hexdigest ext (wsgi_input env) = the (HTTP_CONTENT_MD5 env)"
    and etag: "get_etag ext inst pp req st = Inr (etag, st1)"
    and lm: "get_last_modified ext inst pp req st1 = Inr (last_modified, st2)"
    and date: "serialize_date ext last_modified = Inr d"
    and hdrs: "new_dict [(''ETag'', etag), (''Last-Modified'', d)] st2 = (hdrs, st3)"
  shows "handle_conditions ext inst pp env req st =
           (case (if handle_condition_etag req etag = 0
                  then handle_condition_last_modified req last_modified
                  else Inr (Some (handle_condition_etag req etag))) of
              Inl e \<Rightarrow> Inl e
            | Inr status' \<Rightarrow>
                if greater_zero status' then
                  (case get_response_by_status (the status') inst hdrs st3 of
                     Inl e \<Rightarrow> Inl e
                   | Inr (resp, st4) \<Rightarrow> Inr ((hdrs, Some resp), st4))
                else Inr ((hdrs, None), st3))"
proof -
  have "\<not> (HTTP_CONTENT_MD5 env \<noteq> None
         \<and> md5_hexdigest ext (wsgi_input env) \<noteq> the (HTTP_CONTENT_MD5 env))"
    using md5 by auto
  then show ?thesis
    unfolding handle_conditions_def
    by (simp only: if_False etag lm date hdrs sum.case prod.case Let_def)
qed

text \<open>
  C2: the Last-Modified precondition decides only when the ETag precondition gave 0. An
  absent timestamp lets the request proceed; otherwise If-Modified-Since, when present
  and not before the timestamp, gives 304; else If-Unmodified-Since, when present and
  before the timestamp, gives 412; else the request proceeds. The evaluator returns the
  response of the decision, and no response when the request proceeds.
\<close>

theorem last_modified_precondition:
  assumes md5: "HTTP_CONTENT_MD5 env = None
                  \<or> md5_hexdigest ext (wsgi_input env) = the (HTTP_CONTENT_MD5 env)"
    and etag: "get_etag ext inst pp req st = Inr (etag, st1)"
    and lm: "get_last_modified ext inst pp req st1 = Inr (last_modified, st2)"
    and ts: "handle_condition_etag req etag \<noteq> 0
               \<or> last_modified = PNone \<or> last_modified = PDate t"
    and date: "serialize_date ext last_modified = Inr date"
    and hdrs: "new_dict [(''ETag'', etag), (''Last-Modified'', date)] st2 = (hdrs, st3)"
    and d: "decision = (if handle_condition_etag req etag \<noteq> 0 then handle_condition_etag req etag
                        else last_modified_decision req (timestamp last_modified))"
  shows "handle_conditions ext inst pp env req st =
           Inr ((hdrs,
                 if decision = 0 then None
                 else if decision = 304 then Some (get_response_304 hdrs)
                 else Some (get_response_412 hdrs)), st3)"
proof -
  note hc = handle_conditions_md5_ok [OF md5 etag lm date hdrs]
  let ?s = "handle_condition_etag req etag"
  show ?thesis
  proof (cases "?s = 0")
    case True
    from True ts have "last_modified = PNone \<or> last_modified = PDate t" by simp
    then have l: "handle_condition_last_modified req last_modified =
           Inr (if last_modified = PNone then None
                else Some (last_modified_decision req (timestamp last_modified)))"
      by (rule handle_condition_last_modified_decision)
    from True d have dec: "decision = last_modified_decision req (timestamp last_modified)"
      by simp
    show ?thesis
    proof (cases "last_modified = PNone")
      case True
      with dec have "decision = 0" by (simp add: last_modified_decision_def)
      with True \<open>?s = 0\<close> l show ?thesis
        by (simp add: hc greater_zero_def)
    next
      case False
      with l have l': "handle_condition_last_modified req last_modified = Inr (Some decision)"
        using dec by simp
      from last_modified_decision_values [of req "timestamp last_modified"] dec
      have "decision = 0 \<or> decision = 304 \<or> decision = 412" by simp
      then show ?thesis
        using l' \<open>?s = 0\<close>
        by (auto simp: hc greater_zero_def get_response_by_status_def)
    qed
  next
    case False
    with d have dec: "decision = ?s" by simp
    from handle_condition_etag_values [of req etag] False
    have "?s = 304 \<or> ?s = 412" by simp
    then show ?thesis
      using dec
      by (auto simp: hc greater_zero_def get_response_by_status_def)
  qed
qed

theorem last_modified_precondition_witness:
  "handle_condition_etag (a_request\<lparr>if_modified_since := Some 86400\<rparr>)
       (Some ([dq] @ ''doc7'' @ [dq])) = 0 \<and>
   handle_conditions library document [''id'' \<mapsto> ''7''] an_environ
       (a_request\<lparr>if_modified_since := Some 86400\<rparr>) initial_state
     = Inr ((4, Some (get_response_304 4)), after_conditions) \<and>
   handle_conditions library document [''id'' \<mapsto> ''7''] an_environ
       (a_request\<lparr>if_unmodified_since := Some 0\<rparr>) initial_state
     = Inr ((4, Some (get_response_412 4)), after_conditions) \<and>
   handle_conditions library document [''id'' \<mapsto> ''7''] an_environ
       (a_request\<lparr>if_modified_since := Some 0, if_unmodified_since := Some 86400\<rparr>)
       initial_state
     = Inr ((4, None), after_conditions) \<and>
   handle_condition_etag (a_request\<lparr>if_match := {}, if_modified_since := Some 86400\<rparr>)
       (Some ([dq] @ ''doc7'' @ [dq])) = 412 \<and>
   handle_conditions library document [''id'' \<mapsto> ''7''] an_environ
       (a_request\<lparr>if_match := {}, if_modified_since := Some 86400\<rparr>) initial_state
     = Inr ((4, Some (get_response_412 4)), after_conditions)"
proof -
  let ?etag = "Some ([dq] @ ''doc7'' @ [dq])"
  have md5: "HTTP_CONTENT_MD5 an_environ = None
               \<or> md5_hexdigest library (wsgi_input an_environ) = the (HTTP_CONTENT_MD5 an_environ)"
    by (simp add: an_environ_def)
  have ts: "handle_condition_etag req ?etag \<noteq> 0 \<or> PDate 86400 = PNone
              \<or> PDate 86400 = PDate 86400" for req
    by simp
  note w = last_modified_precondition
    [OF md5 document_etag document_last_modified ts document_date document_headers refl]
  have e: "handle_condition_etag (a_request\<lparr>if_modified_since := Some 86400\<rparr>) ?etag = 0"
      "handle_condition_etag (a_request\<lparr>if_unmodified_since := Some 0\<rparr>) ?etag = 0"
      "handle_condition_etag
         (a_request\<lparr>if_modified_since := Some 0, if_unmodified_since := Some 86400\<rparr>) ?etag = 0"
      "handle_condition_etag (a_request\<lparr>if_match := {}, if_modified_since := Some 86400\<rparr>)
         ?etag = 412"
    by (simp_all add: handle_condition_etag_def truthy_hval_def a_request_def)
  have l: "last_modified_decision (a_request\<lparr>if_modified_since := Some 86400\<rparr>)
             (Some 86400) = 304"
      "last_modified_decision (a_request\<lparr>if_unmodified_since := Some 0\<rparr>) (Some 86400) = 412"
      "last_modified_decision
         (a_request\<lparr>if_modified_since := Some 0, if_unmodified_since := Some 86400\<rparr>)
         (Some 86400) = 0"
    by (simp_all add: last_modified_decision_def a_request_def)
  show ?thesis
    using w [where req = "a_request\<lparr>if_modified_since := Some 86400\<rparr>",
             unfolded timestamp.simps e l]
      w [where req = "a_request\<lparr>if_unmodified_since := Some 0\<rparr>",
         unfolded timestamp.simps e l]
      w [where req = "a_request\<lparr>if_modified_since := Some 0,
                                 if_unmodified_since := Some 86400\<rparr>",
         unfolded timestamp.simps e l]
      w [where req = "a_request\<lparr>if_match := {}, if_modified_since := Some 86400\<rparr>",
         unfolded e]
      e(1,4)
    by simp
qed

section \<open>Requests without a handler\<close>

lemma upper_char_fixed: "upper_char c = c \<longleftrightarrow> c \<notin> set ''abcdefghijklmnopqrstuvwxyz''"
  by (simp add: upper_char_def)

lemma upper_fixed: "upper name = name \<longleftrightarrow> verb_shaped name"
  by (induction name) (simp_all add: upper_def verb_shaped_def upper_char_fixed del: set_simps)

lemma get_allowed_methods_exposed:
  "get_allowed_methods inst = join '', '' (exposed_verb_handlers inst)"
  by (simp add: get_allowed_methods_def exposed_verb_handlers_def upper_fixed)

lemma setitem_lookup: "map_of (store (setitem a k v st) a) k = Some v"
  by (simp add: setitem_def update_conv')

lemma setitem_invoked: "invoked (setitem a k v st) = invoked st"
  by (simp add: setitem_def)

text \<open>
  C3: when method resolution finds no handler for the request verb, the response has
  status 405 for the verbs \<^verbatim>\<open>OPTIONS\<close>, \<^verbatim>\<open>GET\<close>, \<^verbatim>\<open>HEAD\<close>, \<^verbatim>\<open>POST\<close>, \<^verbatim>\<open>PUT\<close>, \<^verbatim>\<open>DELETE\<close>,
  \<^verbatim>\<open>TRACE\<close> and \<^verbatim>\<open>CONNECT\<close> and 501 for any other verb; in both cases its \<^verbatim>\<open>Allow\<close> header
  is the verb-shaped callable attributes of the instance joined by a comma and a space,
  and no method of the instance is called.
\<close>

theorem no_handler_status_and_allow:
  assumes "resolve_method inst (request_method (webob_Request env)) = None"
  shows "\<exists>r st'. call_resource ext inst pp env st = Inr (r, st') \<and>
           resp_status r =
             Some (if request_method (webob_Request env)
                        \<in> {''OPTIONS'', ''GET'', ''HEAD'', ''POST'', ''PUT'', ''DELETE'',
                            ''TRACE'', ''CONNECT''}
                   then 405 else 501) \<and>
           map_of (store st' (resp_headers r)) ''Allow''
             = Some (Some (join '', '' (exposed_verb_handlers inst))) \<and>
           invoked st' = invoked st"
proof (cases "request_method (webob_Request env)
                \<in> {''OPTIONS'', ''GET'', ''HEAD'', ''POST'', ''PUT'', ''DELETE'',
                    ''TRACE'', ''CONNECT''}")
  case True
  then have "call_resource ext inst pp env st = Inr (get_response_405 inst None st)"
    using assms by (simp add: call_resource_def Let_def)
  with True show ?thesis
    by (simp add: get_response_405_def Let_def setitem_lookup setitem_invoked
        get_allowed_methods_exposed)
next
  case False
  then have "call_resource ext inst pp env st = Inr (get_response_501 inst None st)"
    using assms by (simp add: call_resource_def Let_def)
  with False show ?thesis
    by (simp add: get_response_501_def Let_def setitem_lookup setitem_invoked
        get_allowed_methods_exposed)
qed

lemma document_exposed: "exposed_verb_handlers document = [''DELETE'', ''GET'', ''PUT'']"
  by (simp add: exposed_verb_handlers_def verb_shaped_def dir_def getattr_def document_defs)

theorem no_handler_status_and_allow_witness:
  "resolve_method document
     (request_method (webob_Request (an_environ\<lparr>webob_Request := a_request\<lparr>request_method := ''POST''\<rparr>\<rparr>)))
     = None \<and>
   (\<exists>r st'. call_resource library document [''id'' \<mapsto> ''7'']
              (an_environ\<lparr>webob_Request := a_request\<lparr>request_method := ''POST''\<rparr>\<rparr>) initial_state
            = Inr (r, st') \<and>
      resp_status r = Some 405 \<and>
      map_of (store st' (resp_headers r)) ''Allow'' = Some (Some ''DELETE, GET, PUT'') \<and>
      invoked st' = []) \<and>
   resolve_method document
     (request_method (webob_Request (an_environ\<lparr>webob_Request := a_request\<lparr>request_method := ''PATCH''\<rparr>\<rparr>)))
     = None \<and>
   (\<exists>r st'. call_resource library document [''id'' \<mapsto> ''7'']
              (an_environ\<lparr>webob_Request := a_request\<lparr>request_method := ''PATCH''\<rparr>\<rparr>) initial_state
            = Inr (r, st') \<and>
      resp_status r = Some 501 \<and>
      map_of (store st' (resp_headers r)) ''Allow'' = Some (Some ''DELETE, GET, PUT'') \<and>
      invoked st' = [])"
proof -
  let ?post = "an_environ\<lparr>webob_Request := a_request\<lparr>request_method := ''POST''\<rparr>\<rparr>"
  let ?patch = "an_environ\<lparr>webob_Request := a_request\<lparr>request_method := ''PATCH''\<rparr>\<rparr>"
  have p: "resolve_method document (request_method (webob_Request ?post)) = None"
    "resolve_method document (request_method (webob_Request ?patch)) = None"
    by (simp_all add: document_resolves)
  from no_handler_status_and_allow [OF p(1), of library "[''id'' \<mapsto> ''7'']" initial_state]
    no_handler_status_and_allow [OF p(2), of library "[''id'' \<mapsto> ''7'']" initial_state]
    p
  show ?thesis
    by (simp add: document_exposed initial_state_def)
qed

section \<open>Binding the parameters of a method\<close>

lemma bind_params_bound_value:
  "bind_params ext m inst ps pp req =
     (case first_error (map (\<lambda>p. validate_param ext m inst p (bound_value pp req p)) ps) of
        Some e \<Rightarrow> Inl e
      | None \<Rightarrow> Inr (map (bound_value pp req) ps))"
proof (induction ps)
  case Nil
  show ?case by simp
next
  case (Cons p ps)
  have v: "(if p = ''request'' then PRequest req
            else if pp p \<noteq> None then PStr (the (pp p))
            else if GET req p \<noteq> None then PStr (the (GET req p))
            else if POST req p \<noteq> None then PStr (the (POST req p))
            else PNone) = bound_value pp req p"
    by (auto simp: bound_value_def split: option.splits)
  show ?case
  proof (cases "validate_param ext m inst p (bound_value pp req p)")
    case (Inl e)
    then show ?thesis by (simp add: v Let_def)
  next
    case (Inr u)
    then show ?thesis by (simp add: v Let_def Cons.IH split: option.splits)
  qed
qed

text \<open>
  C6: each declared parameter is bound by the precedence request, path parameter, query
  parameter, form parameter, \<^verbatim>\<open>None\<close>; unless the validation of one of the values raises, the
  method is called with the bound values in the order of declaration.
\<close>

theorem call_dynamic_method_binding:
  assumes "getattr inst name = Some (Callable m)"
  shows "call_dynamic_method ext inst name pp req st =
           (case first_error (map (\<lambda>p. validate_param ext m inst p (bound_value pp req p))
                                  (declared_params m)) of
              Some e \<Rightarrow> Inl e
            | None \<Rightarrow>
                Inr (impl m (map (bound_value pp req) (declared_params m)),
                     st\<lparr>invoked := invoked st
                          @ [(name, map (bound_value pp req) (declared_params m))]\<rparr>))"
proof -
  have "(if argspec m \<noteq> [] then tl (argspec m) else argspec m) = declared_params m"
    by (simp add: declared_params_def)
  then show ?thesis
    using assms
    by (simp add: call_dynamic_method_def bind_params_bound_value Let_def split: option.splits)
qed

lemma document_validates:
  "validate_param library document_GET document ''request'' v = Inr ()"
  "validate_param library document_GET document ''lang'' v = Inr ()"
  "validate_param library document_GET document ''id'' (PStr ''7'') = Inr ()"
  "validate_param library document_DELETE document ''id'' (PStr ''7'') = Inr ()"
  "validate_param library document_DELETE document ''confirm'' (PStr ''yes'') = Inr ()"
  by (simp_all add: validate_param_def document_defs library_def truthy_hval_def
      re_search_fragment_def)

theorem call_dynamic_method_binding_witness:
  "getattr document ''GET'' = Some (Callable document_GET) \<and>
   call_dynamic_method library document ''GET'' [''id'' \<mapsto> ''7''] a_request initial_state
     = Inr (impl document_GET [PRequest a_request, PStr ''7'', PStr ''en''],
            initial_state\<lparr>invoked := [(''GET'', [PRequest a_request, PStr ''7'', PStr ''en''])]\<rparr>) \<and>
   call_dynamic_method library document ''GET'' [''id'' \<mapsto> ''7'']
       (a_request\<lparr>GET := Map.empty, POST := [''lang'' \<mapsto> ''fr'']\<rparr>) initial_state
     = Inr (impl document_GET
              [PRequest (a_request\<lparr>GET := Map.empty, POST := [''lang'' \<mapsto> ''fr'']\<rparr>),
               PStr ''7'', PStr ''fr''],
            initial_state\<lparr>invoked :=
              [(''GET'', [PRequest (a_request\<lparr>GET := Map.empty, POST := [''lang'' \<mapsto> ''fr'']\<rparr>),
                          PStr ''7'', PStr ''fr''])]\<rparr>) \<and>
   call_dynamic_method library document ''GET'' [''id'' \<mapsto> ''7'']
       (a_request\<lparr>GET := Map.empty\<rparr>) initial_state
     = Inr (impl document_GET [PRequest (a_request\<lparr>GET := Map.empty\<rparr>), PStr ''7'', PNone],
            initial_state\<lparr>invoked :=
              [(''GET'', [PRequest (a_request\<lparr>GET := Map.empty\<rparr>), PStr ''7'', PNone])]\<rparr>) \<and>
   getattr document ''DELETE'' = Some (Callable document_DELETE) \<and>
   call_dynamic_method library document ''DELETE'' [''id'' \<mapsto> ''7'']
       (a_request\<lparr>POST := [''confirm'' \<mapsto> ''yes'']\<rparr>) initial_state
     = Inr (PStr ''deleted'',
            initial_state\<lparr>invoked := [(''DELETE'', [PStr ''7'', PStr ''yes''])]\<rparr>)"
proof -
  have g: "getattr document ''GET'' = Some (Callable document_GET)"
    and d: "getattr document ''DELETE'' = Some (Callable document_DELETE)"
    by (simp_all add: getattr_def document_def)
  have pg: "declared_params document_GET = [''request'', ''id'', ''lang'']"
    and pd: "declared_params document_DELETE = [''id'', ''confirm'']"
    by (simp_all add: declared_params_def document_defs)
  have b: "bound_value [''id'' \<mapsto> ''7''] a_request ''request'' = PRequest a_request"
    "bound_value [''id'' \<mapsto> ''7''] a_request ''id'' = PStr ''7''"
    "bound_value [''id'' \<mapsto> ''7''] a_request ''lang'' = PStr ''en''"
    by (simp_all add: bound_value_def a_request_def)
  have b2: "bound_value [''id'' \<mapsto> ''7''] (a_request\<lparr>GET := Map.empty, POST := [''lang'' \<mapsto> ''fr'']\<rparr>)
              ''request'' = PRequest (a_request\<lparr>GET := Map.empty, POST := [''lang'' \<mapsto> ''fr'']\<rparr>)"
    "bound_value [''id'' \<mapsto> ''7''] (a_request\<lparr>GET := Map.empty, POST := [''lang'' \<mapsto> ''fr'']\<rparr>)
              ''id'' = PStr ''7''"
    "bound_value [''id'' \<mapsto> ''7''] (a_request\<lparr>GET := Map.empty, POST := [''lang'' \<mapsto> ''fr'']\<rparr>)
              ''lang'' = PStr ''fr''"
    by (simp_all add: bound_value_def)
  have b3: "bound_value [''id'' \<mapsto> ''7''] (a_request\<lparr>GET := Map.empty\<rparr>) ''request''
              = PRequest (a_request\<lparr>GET := Map.empty\<rparr>)"
    "bound_value [''id'' \<mapsto> ''7''] (a_request\<lparr>GET := Map.empty\<rparr>) ''id'' = PStr ''7''"
    "bound_value [''id'' \<mapsto> ''7''] (a_request\<lparr>GET := Map.empty\<rparr>) ''lang'' = PNone"
    by (simp_all add: bound_value_def a_request_def)
  have b4: "bound_value [''id'' \<mapsto> ''7''] (a_request\<lparr>POST := [''confirm'' \<mapsto> ''yes'']\<rparr>) ''id''
              = PStr ''7''"
    "bound_value [''id'' \<mapsto> ''7''] (a_request\<lparr>POST := [''confirm'' \<mapsto> ''yes'']\<rparr>) ''confirm''
              = PStr ''yes''"
    by (simp_all add: bound_value_def a_request_def)
  have i: "impl document_DELETE args = PStr ''deleted''" for args
    by (simp add: document_defs)
  note w = call_dynamic_method_binding
  show ?thesis
    using w [OF g, of library "[''id'' \<mapsto> ''7'']" a_request initial_state]
      w [OF g, of library "[''id'' \<mapsto> ''7'']"
           "a_request\<lparr>GET := Map.empty, POST := [''lang'' \<mapsto> ''fr'']\<rparr>" initial_state]
      w [OF g, of library "[''id'' \<mapsto> ''7'']" "a_request\<lparr>GET := Map.empty\<rparr>" initial_state]
      w [OF d, of library "[''id'' \<mapsto> ''7'']" "a_request\<lparr>POST := [''confirm'' \<mapsto> ''yes'']\<rparr>"
           initial_state]
    by (simp add: g d pg pd b b2 b3 b4 i document_validates initial_state_def)
qed

section \<open>Merging the default headers\<close>

lemma merge_defaults_lookup:
  "map_of (merge_defaults ds h) k =
     (case map_of h k of
        Some v \<Rightarrow> Some v
      | None \<Rightarrow> map_of (filter (\<lambda>(key, v). truthy_hval v) ds) k)"
proof (induction ds arbitrary: h)
  case Nil
  show ?case by (simp split: option.splits)
next
  case (Cons d ds)
  obtain key v where d: "d = (key, v)" by (cases d)
  show ?case
    by (auto simp: d Cons.IH update_conv' split: option.splits)
qed

lemma call_dynamic_method_store:
  assumes "call_dynamic_method ext inst name pp req st = Inr (v, st')"
  shows "store st' = store st \<and> next_addr st' = next_addr st"
  using assms
  by (auto simp: call_dynamic_method_def Let_def split: option.splits attr.splits sum.splits)

lemma get_response_by_status_headers:
  assumes "get_response_by_status n inst hdrs st = Inr (r, st')"
  shows "resp_headers r = hdrs"
  using assms
  by (auto simp: get_response_by_status_def get_response_304_def get_response_400_def
      get_response_404_def get_response_405_def get_response_412_def get_response_501_def
      Let_def split: if_splits)

lemma handle_conditions_proceed:
  assumes cond: "handle_conditions ext inst pp env req st = Inr ((dh, None), st1)"
    and etag: "get_etag ext inst pp req st = Inr (etag, sa)"
    and lm: "get_last_modified ext inst pp req sa = Inr (last_modified, sb)"
    and date: "serialize_date ext last_modified = Inr d"
  shows "(dh, st1) = new_dict [(''ETag'', etag), (''Last-Modified'', d)] sb"
proof -
  obtain h s3 where n: "new_dict [(''ETag'', etag), (''Last-Modified'', d)] sb = (h, s3)"
    by (cases "new_dict [(''ETag'', etag), (''Last-Modified'', d)] sb")
  have md5: "HTTP_CONTENT_MD5 env = None
               \<or> md5_hexdigest ext (wsgi_input env) = the (HTTP_CONTENT_MD5 env)"
    using cond by (auto simp: handle_conditions_def new_dict_def split: if_splits)
  from cond show ?thesis
    unfolding handle_conditions_md5_ok [OF md5 etag lm date n] n
    by (auto split: sum.splits if_splits prod.splits)
qed

text \<open>
  C7: after a successful invocation the headers of the response are the handler's headers
  merged with the default headers \<^verbatim>\<open>ETag\<close> and \<^verbatim>\<open>Last-Modified\<close>: a name the handler supplies
  keeps the handler's value, and a default header whose computed value is not absent and
  whose name the handler does not supply is present with that value. Nothing else is in
  the headers.
\<close>

theorem response_headers_merge:
  assumes resolve: "resolve_method inst (request_method (webob_Request env)) = Some m"
    and etag: "get_etag ext inst pp (webob_Request env) st = Inr (etag, sa)"
    and lm: "get_last_modified ext inst pp (webob_Request env) sa = Inr (last_modified, sb)"
    and date: "serialize_date ext last_modified = Inr d"
    and nonempty: "d \<noteq> Some []"
    and cond: "handle_conditions ext inst pp env (webob_Request env) st = Inr ((dh, None), st1)"
    and call: "call_dynamic_method ext inst m pp (webob_Request env) st1 = Inr (result, st2)"
    and hh: "handler_headers = (case result of PMiniResponse b (Some h) \<Rightarrow> h | _ \<Rightarrow> [])"
  shows "\<exists>r st'. call_resource ext inst pp env st = Inr (r, st') \<and>
           (\<forall>k. map_of (store st' (resp_headers r)) k =
                  (case map_of handler_headers k of
                     Some v \<Rightarrow> Some v
                   | None \<Rightarrow>
                       if k = ''ETag'' \<and> etag \<noteq> None then Some etag
                       else if k = ''Last-Modified'' \<and> d \<noteq> None then Some d
                       else None))"
proof -
  let ?req = "webob_Request env"
  let ?dflt = "[(''ETag'', etag), (''Last-Modified'', d)]"
  from handle_conditions_proceed [OF cond etag lm date]
  have dh: "dh = next_addr sb" and st1: "st1 = snd (new_dict ?dflt sb)"
    by (simp_all add: new_dict_def)
  from call_dynamic_method_store [OF call]
  have s2: "store st2 = store st1" "next_addr st2 = next_addr st1" by simp_all
  have n1: "next_addr st1 = Suc dh" and d1: "store st1 dh = ?dflt"
    by (simp_all add: st1 dh new_dict_def)
  let ?h = "if (case result of PMiniResponse b h \<Rightarrow> h | _ \<Rightarrow> None) = None
               \<or> the (case result of PMiniResponse b h \<Rightarrow> h | _ \<Rightarrow> None) = []
            then [] else the (case result of PMiniResponse b h \<Rightarrow> h | _ \<Rightarrow> None)"
  have h: "?h = handler_headers"
    by (auto simp: hh split: pyval.splits option.splits)
  let ?body = "case result of PMiniResponse b h \<Rightarrow> b | _ \<Rightarrow> result"
  let ?st3 = "snd (new_dict handler_headers st2)"
  let ?st4 = "?st3\<lparr>store := (store ?st3)
                 (Suc dh := merge_defaults (store ?st3 dh) (store ?st3 (Suc dh)))\<rparr>"
  have cr: "call_resource ext inst pp env st =
          Inr (\<lparr>resp_body = ?body, resp_status = None, resp_headers = Suc dh,
                resp_method = Some m, resp_extension = pp ''_extension''\<rparr>, ?st4)"
    using resolve cond call
    by (auto simp: hh call_resource_def Let_def new_dict_def s2 n1
        split: pyval.splits option.splits)
  have final: "store ?st4 (Suc dh) = merge_defaults ?dflt handler_headers"
    by (simp add: new_dict_def s2 n1 d1)
  have e: "etag \<noteq> None \<Longrightarrow> truthy_hval etag"
    using get_etag_present [of ext inst pp ?req st _ sa] etag
    by (cases etag) (simp_all add: truthy_hval_def)
  have e': "truthy_hval etag \<Longrightarrow> etag \<noteq> None"
    by (cases etag) (simp_all add: truthy_hval_def)
  have d: "truthy_hval d \<longleftrightarrow> d \<noteq> None"
    using nonempty by (cases d) (simp_all add: truthy_hval_def)
  show ?thesis
    unfolding cr
    apply (intro exI conjI)
     apply (rule refl)
    apply (simp only: response.simps final merge_defaults_lookup)
    using e e' d
    apply (auto split: option.splits)
    done
qed


lemma document_conditions_proceed:
  assumes "if_match req = UNIV" "if_none_match req = {}" "if_modified_since req = None"
    "if_unmodified_since req = None"
  shows "handle_conditions library document [''id'' \<mapsto> ''7''] an_environ req initial_state
           = Inr ((4, None), after_conditions)"
proof -
  have md5: "HTTP_CONTENT_MD5 an_environ = None
               \<or> md5_hexdigest library (wsgi_input an_environ) = the (HTTP_CONTENT_MD5 an_environ)"
    by (simp add: an_environ_def)
  show ?thesis
    unfolding handle_conditions_md5_ok
      [OF md5 document_etag document_last_modified document_date document_headers]
    using assms
    by (simp add: handle_condition_etag_def truthy_hval_def strip_quotes_def
        handle_condition_last_modified_def greater_zero_def)
qed

theorem response_headers_merge_witness:
  "resolve_method document (request_method (webob_Request an_environ)) = Some ''GET'' \<and>
   handle_conditions library document [''id'' \<mapsto> ''7''] an_environ (webob_Request an_environ)
       initial_state = Inr ((4, None), after_conditions) \<and>
   call_dynamic_method library document ''GET'' [''id'' \<mapsto> ''7''] (webob_Request an_environ)
       after_conditions
     = Inr (PMiniResponse (PDict [(''args'', PInt 3)]) (Some [(''ETag'', Some ''custom'')]),
            after_conditions\<lparr>invoked := invoked after_conditions
              @ [(''GET'', [PRequest a_request, PStr ''7'', PStr ''en''])]\<rparr>) \<and>
   (\<exists>r st'. call_resource library document [''id'' \<mapsto> ''7''] an_environ initial_state
              = Inr (r, st') \<and>
      map_of (store st' (resp_headers r)) ''ETag'' = Some (Some ''custom'') \<and>
      map_of (store st' (resp_headers r)) ''Last-Modified''
        = Some (Some ''Fri, 02 Jan 1970 00:00:00 GMT'') \<and>
      map_of (store st' (resp_headers r)) ''Allow'' = None)"
proof -
  have req: "webob_Request an_environ = a_request"
    by (simp add: an_environ_def)
  have resolve: "resolve_method document (request_method (webob_Request an_environ))
                   = Some ''GET''"
    by (simp add: req a_request_def resolve_method.simps hasattr_def getattr_def document_def)
  have cond: "handle_conditions library document [''id'' \<mapsto> ''7''] an_environ
                (webob_Request an_environ) initial_state = Inr ((4, None), after_conditions)"
    by (rule document_conditions_proceed) (simp_all add: req a_request_def)
  have call: "call_dynamic_method library document ''GET'' [''id'' \<mapsto> ''7'']
                (webob_Request an_environ) after_conditions
              = Inr (PMiniResponse (PDict [(''args'', PInt 3)]) (Some [(''ETag'', Some ''custom'')]),
                     after_conditions\<lparr>invoked := invoked after_conditions
                       @ [(''GET'', [PRequest a_request, PStr ''7'', PStr ''en''])]\<rparr>)"
    by (simp add: req call_dynamic_method_def getattr_def document_defs validate_param_def
        a_request_def)
  have nonempty: "Some ''Fri, 02 Jan 1970 00:00:00 GMT'' \<noteq> Some []"
    by simp
  from response_headers_merge
    [OF resolve document_etag document_last_modified document_date nonempty cond call refl]
  obtain r st' where cr: "call_resource library document [''id'' \<mapsto> ''7''] an_environ
                            initial_state = Inr (r, st')"
    and m: "\<And>k. map_of (store st' (resp_headers r)) k =
              (case map_of [(''ETag'', Some ''custom'')] k of
                 Some v \<Rightarrow> Some v
               | None \<Rightarrow>
                   if k = ''ETag'' \<and> Some ([dq] @ ''doc7'' @ [dq]) \<noteq> None
                   then Some (Some ([dq] @ ''doc7'' @ [dq]))
                   else if k = ''Last-Modified'' \<and> Some ''Fri, 02 Jan 1970 00:00:00 GMT'' \<noteq> None
                     then Some (Some ''Fri, 02 Jan 1970 00:00:00 GMT'')
                     else None)"
    by auto
  have "map_of (store st' (resp_headers r)) ''ETag'' = Some (Some ''custom'')"
    "map_of (store st' (resp_headers r)) ''Last-Modified''
       = Some (Some ''Fri, 02 Jan 1970 00:00:00 GMT'')"
    "map_of (store st' (resp_headers r)) ''Allow'' = None"
    by (simp_all add: m)
  with cr resolve cond call show ?thesis by blast
qed

section \<open>The Content-MD5 check\<close>

text \<open>
  C9: when the request carries a Content-MD5 header and the MD5 digest of the request body
  differs from it, the conditional evaluator answers at once with status 400 and the error
  message \<^verbatim>\<open>The Content-MD5 request header does not match the body.\<close>: no capability and no
  handler of the instance is called, and the dispatcher returns this response for every
  verb that resolves to a handler.
\<close>

theorem content_md5_mismatch:
  assumes "HTTP_CONTENT_MD5 env = Some h"
    and "md5_hexdigest ext (wsgi_input env) \<noteq> h"
  shows "\<exists>a r st'.
           handle_conditions ext inst pp env req st = Inr ((a, Some r), st') \<and>
           resp_status r = Some 400 \<and>
           resp_body r =
             PDict [(''error'', PStr ''The Content-MD5 request header does not match the body.'')] \<and>
           invoked st' = invoked st \<and>
           (\<forall>m. resolve_method inst (request_method (webob_Request env)) = Some m \<longrightarrow>
                  call_resource ext inst pp env st = Inr (r, st'))"
proof -
  let ?r = "get_response_400 None
              (Some ''The Content-MD5 request header does not match the body.'')"
  let ?st' = "snd (new_dict [] st)"
  have hc: "handle_conditions ext inst pp env q st = Inr ((next_addr st, Some ?r), ?st')" for q
    using assms by (simp add: handle_conditions_def new_dict_def)
  have "resp_status ?r = Some 400"
    and "resp_body ?r =
           PDict [(''error'', PStr ''The Content-MD5 request header does not match the body.'')]"
    and "invoked ?st' = invoked st"
    by (simp_all add: get_response_400_def new_dict_def)
  moreover have "call_resource ext inst pp env st = Inr (?r, ?st')"
    if "resolve_method inst (request_method (webob_Request env)) = Some m" for m
    using that by (simp add: call_resource_def Let_def hc)
  ultimately show ?thesis
    using hc [of req] by blast
qed

theorem content_md5_mismatch_witness:
  "HTTP_CONTENT_MD5 (an_environ\<lparr>HTTP_CONTENT_MD5 := Some ''deadbeef'', wsgi_input := ''hello'',
       webob_Request := a_request\<lparr>request_method := ''PUT''\<rparr>\<rparr>) = Some ''deadbeef'' \<and>
   md5_hexdigest library ''hello'' = ''5d41402abc4b2a76b9719d911017c592'' \<and>
   resolve_method document ''PUT'' = Some ''PUT'' \<and>
   (\<exists>r st'. call_resource library document [''id'' \<mapsto> ''7'']
               (an_environ\<lparr>HTTP_CONTENT_MD5 := Some ''deadbeef'', wsgi_input := ''hello'',
                  webob_Request := a_request\<lparr>request_method := ''PUT''\<rparr>\<rparr>) initial_state
             = Inr (r, st') \<and>
      resp_status r = Some 400 \<and>
      resp_body r =
        PDict [(''error'', PStr ''The Content-MD5 request header does not match the body.'')] \<and>
      invoked st' = [])"
proof -
  let ?env = "an_environ\<lparr>HTTP_CONTENT_MD5 := Some ''deadbeef'', wsgi_input := ''hello'',
                webob_Request := a_request\<lparr>request_method := ''PUT''\<rparr>\<rparr>"
  have h: "HTTP_CONTENT_MD5 ?env = Some ''deadbeef''" by simp
  have d: "md5_hexdigest library ''hello'' = ''5d41402abc4b2a76b9719d911017c592''"
    by (simp add: library_def md5_known_def)
  have n: "md5_hexdigest library (wsgi_input ?env) \<noteq> ''deadbeef''"
    by (simp add: library_def md5_known_def)
  have p: "resolve_method document ''PUT'' = Some ''PUT''"
    by (simp add: resolve_method.simps hasattr_def getattr_def document_def)
  then have p': "resolve_method document (request_method (webob_Request ?env)) = Some ''PUT''"
    by simp
  from content_md5_mismatch [OF h n, of document "[''id'' \<mapsto> ''7'']" a_request initial_state] p'
  have "\<exists>r st'. call_resource library document [''id'' \<mapsto> ''7''] ?env initial_state = Inr (r, st') \<and>
      resp_status r = Some 400 \<and>
      resp_body r =
        PDict [(''error'', PStr ''The Content-MD5 request header does not match the body.'')] \<and>
      invoked st' = invoked initial_state"
    by blast
  with h d p show ?thesis
    by (simp add: initial_state_def)
qed

section \<open>The default header dictionaries\<close>

lemma setitem_store:
  "map_of (store (setitem a k v st) b) k' =
     (if b = a \<and> k' = k then Some v else map_of (store st b) k')"
  by (simp add: setitem_def update_conv')

text \<open>
  C10: called without a headers argument, \<^verbatim>\<open>_get_response_405\<close> and \<^verbatim>\<open>_get_response_501\<close>
  write the \<^verbatim>\<open>Allow\<close> entry into one dictionary each, the same for every such call: the
  response of every call holds that dictionary, every other entry in it survives the call,
  and a later call changes the \<^verbatim>\<open>Allow\<close> header that an earlier response shows. A call
  that is given another dictionary leaves the default one alone.
\<close>

theorem default_headers_shared:
  "resp_headers (fst (get_response_405 i1 None st)) = default_headers_405 \<and>
   resp_headers (fst (get_response_501 i1 None st)) = default_headers_501 \<and>
   map_of (store (snd (get_response_405 i1 None st)) default_headers_405) k =
     (if k = ''Allow'' then Some (Some (get_allowed_methods i1))
      else map_of (store st default_headers_405) k) \<and>
   map_of (store (snd (get_response_501 i1 None st)) default_headers_501) k =
     (if k = ''Allow'' then Some (Some (get_allowed_methods i1))
      else map_of (store st default_headers_501) k) \<and>
   (let (r1, s1) = get_response_405 i1 None st; (r2, s2) = get_response_405 i2 None s1
    in resp_headers r2 = resp_headers r1 \<and>
       map_of (store s1 (resp_headers r1)) ''Allow'' = Some (Some (get_allowed_methods i1)) \<and>
       map_of (store s2 (resp_headers r1)) ''Allow'' = Some (Some (get_allowed_methods i2))) \<and>
   (let (r1, s1) = get_response_501 i1 None st; (r2, s2) = get_response_501 i2 None s1
    in resp_headers r2 = resp_headers r1 \<and>
       map_of (store s1 (resp_headers r1)) ''Allow'' = Some (Some (get_allowed_methods i1)) \<and>
       map_of (store s2 (resp_headers r1)) ''Allow'' = Some (Some (get_allowed_methods i2))) \<and>
   map_of (store (snd (get_response_405 i1 (Some a) st)) default_headers_405) k =
     (if a = default_headers_405 \<and> k = ''Allow'' then Some (Some (get_allowed_methods i1))
      else map_of (store st default_headers_405) k) \<and>
   map_of (store (snd (get_response_501 i1 (Some a) st)) default_headers_501) k =
     (if a = default_headers_501 \<and> k = ''Allow'' then Some (Some (get_allowed_methods i1))
      else map_of (store st default_headers_501) k)"
  by (simp add: get_response_405_def get_response_501_def Let_def setitem_store)

lemma plain_allowed: "get_allowed_methods plain = ''GET''"
  by (simp add: get_allowed_methods_def dir_def getattr_def plain_def upper_def upper_char_def)

lemma document_allowed: "get_allowed_methods document = ''DELETE, GET, PUT''"
  by (simp add: get_allowed_methods_def dir_def getattr_def document_def upper_def
      upper_char_def)

theorem default_headers_shared_witness:
  "(let (r1, s1) = get_response_405 document None initial_state;
        (r2, s2) = get_response_405 plain None s1
    in resp_headers r1 = 2 \<and> resp_headers r2 = 2 \<and>
       map_of (store s1 (resp_headers r1)) ''Allow'' = Some (Some ''DELETE, GET, PUT'') \<and>
       map_of (store s2 (resp_headers r1)) ''Allow'' = Some (Some ''GET'')) \<and>
   map_of (store (snd (get_response_405 plain None
                         (setitem default_headers_405 ''X-Request'' (Some ''1'') initial_state)))
             default_headers_405) ''X-Request'' = Some (Some ''1'') \<and>
   map_of (store (snd (get_response_405 plain (Some 7) initial_state)) default_headers_405)
     ''Allow'' = None"
proof -
  have i: "map_of (store initial_state default_headers_405) ''Allow'' = None"
    by (simp add: initial_state_def)
  have a: "default_headers_405 = 2" "(7::nat) \<noteq> default_headers_405"
    by (simp_all add: default_headers_405_def)
  from default_headers_shared
    [where ?i1.0 = document and st = initial_state and k = "''Allow''" and ?i2.0 = plain
       and a = 7]
  have w: "let (r1, s1) = get_response_405 document None initial_state;
               (r2, s2) = get_response_405 plain None s1
           in resp_headers r1 = 2 \<and> resp_headers r2 = 2 \<and>
              map_of (store s1 (resp_headers r1)) ''Allow'' = Some (Some ''DELETE, GET, PUT'') \<and>
              map_of (store s2 (resp_headers r1)) ''Allow'' = Some (Some ''GET'')"
    by (auto simp: plain_allowed document_allowed a split_beta)
  from default_headers_shared
    [where ?i1.0 = plain
       and st = "setitem default_headers_405 ''X-Request'' (Some ''1'') initial_state"
       and k = "''X-Request''" and ?i2.0 = plain and a = 7]
  have x: "map_of (store (snd (get_response_405 plain None
                         (setitem default_headers_405 ''X-Request'' (Some ''1'') initial_state)))
             default_headers_405) ''X-Request'' = Some (Some ''1'')"
    by (simp add: setitem_store)
  from default_headers_shared
    [where ?i1.0 = plain and st = initial_state and k = "''Allow''" and ?i2.0 = plain and a = 7]
  have y: "map_of (store (snd (get_response_405 plain (Some 7) initial_state))
             default_headers_405) ''Allow'' = None"
    using a(2) by (simp add: i)
  from w x y show ?thesis by simp
qed

section \<open>Failures and exceptions\<close>

lemma handle_condition_last_modified_values:
  assumes "handle_condition_last_modified req lm = Inr (Some n)"
  shows "n = 0 \<or> n = 304 \<or> n = 412"
  using assms
  by (auto simp: handle_condition_last_modified_def split: if_splits pyval.splits)

lemma handle_conditions_response_status:
  assumes "handle_conditions ext inst pp env req st = Inr ((dh, Some r), st1)"
  shows "resp_status r = Some 400 \<or> resp_status r = Some 304 \<or> resp_status r = Some 412"
proof (cases "HTTP_CONTENT_MD5 env \<noteq> None
               \<and> md5_hexdigest ext (wsgi_input env) \<noteq> the (HTTP_CONTENT_MD5 env)")
  case True
  with assms show ?thesis
    by (auto simp: handle_conditions_def new_dict_def get_response_400_def)
next
  case False
  then have md5: "HTTP_CONTENT_MD5 env = None
               \<or> md5_hexdigest ext (wsgi_input env) = the (HTTP_CONTENT_MD5 env)"
    by auto
  from assms False obtain etag sa where etag: "get_etag ext inst pp req st = Inr (etag, sa)"
    by (auto simp: handle_conditions_def split: sum.splits)
  from assms False etag obtain lm sb
    where lm: "get_last_modified ext inst pp req sa = Inr (lm, sb)"
    by (auto simp: handle_conditions_def split: sum.splits)
  from assms False etag lm obtain d where date: "serialize_date ext lm = Inr d"
    by (auto simp: handle_conditions_def split: sum.splits)
  obtain h s3 where n: "new_dict [(''ETag'', etag), (''Last-Modified'', d)] sb = (h, s3)"
    by (cases "new_dict [(''ETag'', etag), (''Last-Modified'', d)] sb")
  note hc = assms [unfolded handle_conditions_md5_ok [OF md5 etag lm date n]]
  show ?thesis
  proof (cases "handle_condition_etag req etag = 0")
    case True
    with hc obtain n where l: "handle_condition_last_modified req lm = Inr (Some n)"
      and g: "0 < n" and r: "get_response_by_status n inst h s3 = Inr (r, st1)"
      by (auto simp: greater_zero_def split: sum.splits if_splits option.splits)
    from handle_condition_last_modified_values [OF l] g have "n = 304 \<or> n = 412" by auto
    with r show ?thesis
      by (auto simp: get_response_by_status_def get_response_304_def get_response_412_def)
  next
    case False
    with handle_condition_etag_values [of req etag]
    have "handle_condition_etag req etag = 304 \<or> handle_condition_etag req etag = 412"
      by auto
    with hc False show ?thesis
      by (auto simp: greater_zero_def get_response_by_status_def get_response_304_def
          get_response_412_def)
  qed
qed

text \<open>
  C8 as stated fails on a \<^verbatim>\<open>DELETE\<close> whose \<^verbatim>\<open>confirm\<close> parameter does not validate: the
  dispatcher returns no response, the \<^verbatim>\<open>ValidationException\<close> leaves \<^verbatim>\<open>_handle_request\<close>.
\<close>

theorem validation_error_handled_counterexample:
  "handle_request library an_application
     (an_environ\<lparr>webob_Request :=
        a_request\<lparr>request_method := ''DELETE'', POST := [''confirm'' \<mapsto> ''maybe'']\<rparr>\<rparr>)
     initial_state
   = Inl (ValidationException ''confirm value maybe does not validate.'')"
proof -
  let ?req = "a_request\<lparr>request_method := ''DELETE'', POST := [''confirm'' \<mapsto> ''maybe'']\<rparr>"
  have c: "handle_conditions library document [''id'' \<mapsto> ''7''] an_environ ?req initial_state
             = Inr ((4, None), after_conditions)"
    by (rule document_conditions_proceed) (simp_all add: a_request_def)
  have c': "handle_conditions library document [''id'' \<mapsto> ''7'']
              (an_environ\<lparr>webob_Request := ?req\<rparr>) ?req initial_state
             = Inr ((4, None), after_conditions)"
    using c by (simp add: handle_conditions_def an_environ_def)
  have r: "resolve_method document ''DELETE'' = Some ''DELETE''"
    by (simp add: resolve_method.simps hasattr_def getattr_def document_def)
  have s: "\<not> re_search_fragment ''^yes|no$'' ''maybe''"
    by (simp add: re_search_fragment_def upt_conv_Cons)
  have d: "call_dynamic_method library document ''DELETE'' [''id'' \<mapsto> ''7''] ?req after_conditions
             = Inl (ValidationException ''confirm value maybe does not validate.'')"
    by (simp add: call_dynamic_method_def getattr_def document_defs validate_param_def
        library_def truthy_hval_def s a_request_def)
  show ?thesis
    by (simp add: handle_request_def an_application_def an_environ_def call_resource_def r
        c' [unfolded an_environ_def, simplified] d)
qed


lemma method_params_declared:
  "(if argspec m \<noteq> [] then tl (argspec m) else argspec m) = declared_params m"
  by (simp add: declared_params_def)

text \<open>
  C8, as the code has it: the failures that routing, method resolution and the conditional
  evaluator detect become responses (404; 405 or 501; 400, 304 or 412). An exception
  raised while the parameters of a capability or of the handler are bound, a
  \<^verbatim>\<open>ValidationException\<close> in particular, is not handled: it leaves \<^verbatim>\<open>_handle_request\<close>
  unchanged, no response is produced and the handler is not called.
\<close>

theorem dispatcher_failures:
  "(urlmap app (PATH_INFO env) = None \<longrightarrow>
      (\<exists>r. handle_request ext app env st = Inr (r, st) \<and> resp_status r = Some 404)) \<and>
   (urlmap app (PATH_INFO env) = Some (pp, inst) \<and>
    resolve_method inst (request_method (webob_Request env)) = None \<longrightarrow>
      (\<exists>r st'. handle_request ext app env st = Inr (r, st') \<and>
         (resp_status r = Some 405 \<or> resp_status r = Some 501))) \<and>
   (urlmap app (PATH_INFO env) = Some (pp, inst) \<and>
    resolve_method inst (request_method (webob_Request env)) = Some m \<and>
    handle_conditions ext inst pp env (webob_Request env) st = Inr ((dh, Some r), st1) \<longrightarrow>
      handle_request ext app env st = Inr (r, st1) \<and>
      (resp_status r = Some 400 \<or> resp_status r = Some 304 \<or> resp_status r = Some 412)) \<and>
   (urlmap app (PATH_INFO env) = Some (pp, inst) \<and>
    resolve_method inst (request_method (webob_Request env)) = Some m \<and>
    handle_conditions ext inst pp env (webob_Request env) st = Inl e \<longrightarrow>
      handle_request ext app env st = Inl e) \<and>
   (urlmap app (PATH_INFO env) = Some (pp, inst) \<and>
    resolve_method inst (request_method (webob_Request env)) = Some m \<and>
    handle_conditions ext inst pp env (webob_Request env) st = Inr ((dh, None), st1) \<and>
    getattr inst m = Some (Callable hm) \<and>
    first_error (map (\<lambda>p. validate_param ext hm inst p (bound_value pp (webob_Request env) p))
                     (declared_params hm)) = Some e \<longrightarrow>
      handle_request ext app env st = Inl e)"
proof (intro conjI impI)
  assume "urlmap app (PATH_INFO env) = None"
  then show "\<exists>r. handle_request ext app env st = Inr (r, st) \<and> resp_status r = Some 404"
    by (simp add: handle_request_def get_response_404_def)
next
  assume a: "urlmap app (PATH_INFO env) = Some (pp, inst) \<and>
    resolve_method inst (request_method (webob_Request env)) = None"
  then have "handle_request ext app env st = call_resource ext inst pp env st"
    by (simp add: handle_request_def)
  with a show "\<exists>r st'. handle_request ext app env st = Inr (r, st') \<and>
         (resp_status r = Some 405 \<or> resp_status r = Some 501)"
    by (auto simp: call_resource_def Let_def get_response_405_def get_response_501_def)
next
  assume a: "urlmap app (PATH_INFO env) = Some (pp, inst) \<and>
    resolve_method inst (request_method (webob_Request env)) = Some m \<and>
    handle_conditions ext inst pp env (webob_Request env) st = Inr ((dh, Some r), st1)"
  then show "handle_request ext app env st = Inr (r, st1)"
    by (simp add: handle_request_def call_resource_def Let_def)
  from a have "handle_conditions ext inst pp env (webob_Request env) st = Inr ((dh, Some r), st1)"
    by simp
  then show "resp_status r = Some 400 \<or> resp_status r = Some 304 \<or> resp_status r = Some 412"
    by (rule handle_conditions_response_status)
next
  assume "urlmap app (PATH_INFO env) = Some (pp, inst) \<and>
    resolve_method inst (request_method (webob_Request env)) = Some m \<and>
    handle_conditions ext inst pp env (webob_Request env) st = Inl e"
  then show "handle_request ext app env st = Inl e"
    by (simp add: handle_request_def call_resource_def Let_def)
next
  assume a: "urlmap app (PATH_INFO env) = Some (pp, inst) \<and>
    resolve_method inst (request_method (webob_Request env)) = Some m \<and>
    handle_conditions ext inst pp env (webob_Request env) st = Inr ((dh, None), st1) \<and>
    getattr inst m = Some (Callable hm) \<and>
    first_error (map (\<lambda>p. validate_param ext hm inst p (bound_value pp (webob_Request env) p))
                     (declared_params hm)) = Some e"
  then have "call_dynamic_method ext inst m pp (webob_Request env) st1 = Inl e"
    by (simp add: call_dynamic_method_def bind_params_bound_value method_params_declared)
  with a show "handle_request ext app env st = Inl e"
    by (simp add: handle_request_def call_resource_def Let_def)
qed


theorem dispatcher_failures_witness:
  "urlmap an_application ''/nowhere'' = None \<and>
   (\<exists>r. handle_request library an_application (an_environ\<lparr>PATH_INFO := ''/nowhere''\<rparr>)
          initial_state = Inr (r, initial_state) \<and> resp_status r = Some 404) \<and>
   resolve_method document ''POST'' = None \<and>
   (\<exists>r st'. handle_request library an_application
              (an_environ\<lparr>webob_Request := a_request\<lparr>request_method := ''POST''\<rparr>\<rparr>)
              initial_state = Inr (r, st') \<and> resp_status r = Some 405) \<and>
   handle_conditions library document [''id'' \<mapsto> ''7'']
       (an_environ\<lparr>webob_Request := a_request\<lparr>if_match := {}\<rparr>\<rparr>)
       (a_request\<lparr>if_match := {}\<rparr>) initial_state
     = Inr ((4, Some (get_response_412 4)), after_conditions) \<and>
   handle_request library an_application
       (an_environ\<lparr>webob_Request := a_request\<lparr>if_match := {}\<rparr>\<rparr>) initial_state
     = Inr (get_response_412 4, after_conditions) \<and>
   handle_conditions library document Map.empty
       (an_environ\<lparr>PATH_INFO := ''/documents'', webob_Request := a_request\<lparr>GET := Map.empty\<rparr>\<rparr>)
       (a_request\<lparr>GET := Map.empty\<rparr>) initial_state
     = Inl (ValidationException ''Value for id must not be empty.'') \<and>
   handle_request library an_application
       (an_environ\<lparr>PATH_INFO := ''/documents'', webob_Request := a_request\<lparr>GET := Map.empty\<rparr>\<rparr>)
       initial_state
     = Inl (ValidationException ''Value for id must not be empty.'') \<and>
   first_error
       (map (\<lambda>p. validate_param library document_DELETE document p
                    (bound_value [''id'' \<mapsto> ''7'']
                       (a_request\<lparr>request_method := ''DELETE'',
                                  POST := [''confirm'' \<mapsto> ''maybe'']\<rparr>) p))
            (declared_params document_DELETE))
     = Some (ValidationException ''confirm value maybe does not validate.'') \<and>
   handle_request library an_application
       (an_environ\<lparr>webob_Request :=
          a_request\<lparr>request_method := ''DELETE'', POST := [''confirm'' \<mapsto> ''maybe'']\<rparr>\<rparr>)
       initial_state
     = Inl (ValidationException ''confirm value maybe does not validate.'')"
proof -
  let ?post = "an_environ\<lparr>webob_Request := a_request\<lparr>request_method := ''POST''\<rparr>\<rparr>"
  let ?rq412 = "a_request\<lparr>if_match := {}\<rparr>"
  let ?e412 = "an_environ\<lparr>webob_Request := ?rq412\<rparr>"
  let ?rqnoid = "a_request\<lparr>GET := Map.empty\<rparr>"
  let ?enoid = "an_environ\<lparr>PATH_INFO := ''/documents'', webob_Request := ?rqnoid\<rparr>"
  let ?rqdel = "a_request\<lparr>request_method := ''DELETE'', POST := [''confirm'' \<mapsto> ''maybe'']\<rparr>"
  let ?edel = "an_environ\<lparr>webob_Request := ?rqdel\<rparr>"
  let ?verr = "ValidationException ''Value for id must not be empty.''"
  let ?cerr = "ValidationException ''confirm value maybe does not validate.''"
  have route: "urlmap an_application ''/nowhere'' = None"
    "urlmap an_application ''/documents/7'' = Some ([''id'' \<mapsto> ''7''], document)"
    "urlmap an_application ''/documents'' = Some (Map.empty, document)"
    by (simp_all add: an_application_def)
  have path: "PATH_INFO an_environ = ''/documents/7''" by (simp add: an_environ_def)
  have meth: "request_method a_request = ''GET''" by (simp add: a_request_def)
  \<comment> \<open>no route\<close>
  have p1: "\<exists>r. handle_request library an_application (an_environ\<lparr>PATH_INFO := ''/nowhere''\<rparr>)
              initial_state = Inr (r, initial_state) \<and> resp_status r = Some 404"
    using dispatcher_failures [where app = an_application
        and env = "an_environ\<lparr>PATH_INFO := ''/nowhere''\<rparr>" and ext = library
        and st = initial_state] route(1)
    by simp
  \<comment> \<open>no handler\<close>
  have p2: "\<exists>r st'. handle_request library an_application ?post initial_state = Inr (r, st')
              \<and> (resp_status r = Some 405 \<or> resp_status r = Some 501)"
    using dispatcher_failures [where app = an_application and env = ?post and ext = library
        and st = initial_state and pp = "[''id'' \<mapsto> ''7'']" and inst = document]
      route(2) document_resolves(4) path
    by simp
  have s2: "call_resource library document [''id'' \<mapsto> ''7''] ?post initial_state
              = Inr (get_response_405 document None initial_state)"
    by (simp add: call_resource_def document_resolves)
  from p2 have p2': "\<exists>r st'. handle_request library an_application ?post initial_state
                        = Inr (r, st') \<and> resp_status r = Some 405"
    by (auto simp: handle_request_def route path s2 get_response_405_def Let_def)
  \<comment> \<open>a failed precondition\<close>
  have md5: "HTTP_CONTENT_MD5 ?e412 = None
               \<or> md5_hexdigest library (wsgi_input ?e412) = the (HTTP_CONTENT_MD5 ?e412)"
    by (simp add: an_environ_def)
  have c3: "handle_conditions library document [''id'' \<mapsto> ''7''] ?e412 ?rq412 initial_state
              = Inr ((4, Some (get_response_412 4)), after_conditions)"
    unfolding handle_conditions_md5_ok
      [OF md5 document_etag document_last_modified document_date document_headers]
    by (simp add: handle_condition_etag_def truthy_hval_def greater_zero_def
        get_response_by_status_def)
  have p3: "handle_request library an_application ?e412 initial_state
              = Inr (get_response_412 4, after_conditions)"
    using dispatcher_failures [where app = an_application and env = ?e412 and ext = library
        and st = initial_state and pp = "[''id'' \<mapsto> ''7'']" and inst = document
        and m = "''GET''" and dh = 4 and r = "get_response_412 4" and ?st1.0 = after_conditions]
      route(2) document_resolves(1) path meth c3
    by simp
  \<comment> \<open>an exception while binding the parameters of \<open>get_etag\<close>\<close>
  have c4: "handle_conditions library document Map.empty ?enoid ?rqnoid initial_state = Inl ?verr"
    by (simp add: handle_conditions_def an_environ_def get_etag_def hasattr_def
        call_dynamic_method_def getattr_def document_defs validate_param_def a_request_def)
  have p4: "handle_request library an_application ?enoid initial_state = Inl ?verr"
    using dispatcher_failures [where app = an_application and env = ?enoid and ext = library
        and st = initial_state and pp = Map.empty and inst = document
        and m = "''GET''" and e = ?verr]
      route(3) document_resolves(1) meth c4
    by simp
  \<comment> \<open>an exception while binding the parameters of the handler\<close>
  have c5: "handle_conditions library document [''id'' \<mapsto> ''7''] ?edel ?rqdel initial_state
              = Inr ((4, None), after_conditions)"
    using document_conditions_proceed [of ?rqdel]
    by (simp add: handle_conditions_def an_environ_def a_request_def)
  have g5: "getattr document ''DELETE'' = Some (Callable document_DELETE)"
    by (simp add: getattr_def document_def)
  have s: "\<not> re_search_fragment ''^yes|no$'' ''maybe''"
    by (simp add: re_search_fragment_def upt_conv_Cons)
  have f5: "first_error
       (map (\<lambda>p. validate_param library document_DELETE document p
                    (bound_value [''id'' \<mapsto> ''7''] ?rqdel p))
            (declared_params document_DELETE)) = Some ?cerr"
    by (simp add: declared_params_def document_defs validate_param_def bound_value_def
        library_def truthy_hval_def s a_request_def)
  have p5: "handle_request library an_application ?edel initial_state = Inl ?cerr"
    using dispatcher_failures [where app = an_application and env = ?edel and ext = library
        and st = initial_state and pp = "[''id'' \<mapsto> ''7'']" and inst = document
        and m = "''DELETE''" and dh = 4 and ?st1.0 = after_conditions
        and hm = document_DELETE and e = ?cerr]
      route(2) document_resolves(2) path c5 g5 f5
    by simp
  from route(1) p1 document_resolves(4) p2' c3 p3 c4 p4 f5 p5 show ?thesis
    by blast
qed

section \<open>Pattern rules\<close>

text \<open>
  What the code does with a pattern rule \<open>p\<close> and a non-empty string: the value is accepted
  exactly when \<^verbatim>\<open>re.search\<close> finds the pattern \<^verbatim>\<open>'^' + p + '$'\<close> in it.
\<close>

lemma validate_param_pattern:
  assumes "validations m = Some vs" "vs param = Some r" "r ''re'' = Some (Some p)"
      "p \<noteq> []" "v \<noteq> []"
  shows "validate_param ext m inst param (PStr v) =
           (if re_search ext (''^'' @ p @ ''$'') v then Inr ()
            else Inl (ValidationException (param @ '' value '' @ v @ '' does not validate.'')))"
  using assms by (simp add: validate_param_def truthy_hval_def)

text \<open>
  C5 asks for acceptance exactly when the pattern matches the entire value. The code
  anchors the pattern by concatenation, and the concatenation misses two cases. In
  \<^verbatim>\<open>^yes|no$\<close> the anchors bind tighter than the alternation, so \<^verbatim>\<open>yesterday\<close> is accepted
  for the rule \<^verbatim>\<open>yes|no\<close>; and \<^verbatim>\<open>$\<close> also holds before a final newline, so \<^verbatim>\<open>12\<close> followed
  by a newline is accepted for the rule \<^verbatim>\<open>12\<close>. Neither value is matched by its pattern
  as a whole. The values \<^verbatim>\<open>12\<close> and \<^verbatim>\<open>12a\<close> are treated as the claim says.
\<close>

theorem validate_param_accepts_partial_match:
  "in_fragment ''^yes|no$'' \<and>
   validate_param library (validated ''confirm'' ''yes|no'') plain ''confirm'' (PStr ''yesterday'')
     = Inr () \<and>
   \<not> spans_entire_value ''yes|no'' ''yesterday'' \<and>
   in_fragment ''^12$'' \<and>
   validate_param library (validated ''id'' ''12'') plain ''id'' (PStr (''12'' @ [CHR 0x0A]))
     = Inr () \<and>
   \<not> spans_entire_value ''12'' (''12'' @ [CHR 0x0A]) \<and>
   validate_param library (validated ''id'' ''12'') plain ''id'' (PStr ''12'') = Inr () \<and>
   spans_entire_value ''12'' ''12'' \<and>
   validate_param library (validated ''id'' ''12'') plain ''id'' (PStr ''12a'')
     = Inl (ValidationException ''id value 12a does not validate.'') \<and>
   \<not> spans_entire_value ''12'' ''12a''"
proof -
  have s: "re_search_fragment ''^yes|no$'' ''yesterday''"
    "re_search_fragment ''^12$'' (''12'' @ [CHR 0x0A])"
    "re_search_fragment ''^12$'' ''12''"
    "\<not> re_search_fragment ''^12$'' ''12a''"
    by (simp_all add: re_search_fragment_def upt_conv_Cons)
  have f: "\<not> spans_entire_value ''yes|no'' ''yesterday''"
    "\<not> spans_entire_value ''12'' (''12'' @ [CHR 0x0A])"
    "spans_entire_value ''12'' ''12''"
    "\<not> spans_entire_value ''12'' ''12a''"
    by (simp_all add: spans_entire_value_def)
  have i: "in_fragment ''^yes|no$''" "in_fragment ''^12$''"
    by (simp_all add: in_fragment_def)
  have v: "validate_param library (validated ''confirm'' ''yes|no'') plain ''confirm''
             (PStr ''yesterday'') = Inr ()"
    "validate_param library (validated ''id'' ''12'') plain ''id'' (PStr (''12'' @ [CHR 0x0A]))
       = Inr ()"
    "validate_param library (validated ''id'' ''12'') plain ''id'' (PStr ''12'') = Inr ()"
    "validate_param library (validated ''id'' ''12'') plain ''id'' (PStr ''12a'')
       = Inl (ValidationException ''id value 12a does not validate.'')"
    using s by (simp_all add: validate_param_def validated_def truthy_hval_def library_def)
  from i v f show ?thesis by simp
qed

end
